theory Spec2Isabelle
  imports Main "HOL-Library.AList"
begin

text \<open>
  A model of the Limitless TCG server: the authenticated request client
  \<^verbatim>\<open>limitlessRequest\<close>, the handlers that call it, and the resolution of the credential
  at process start. The sources hold the server in several variants. server.ts has a
  request client that always authenticates by header and four tools; part 000 has the
  client that falls back from query-parameter to header authentication and the same four
  tools with titled payloads; part 001 and part 002 have that same client under resource
  handlers; a second listing inside server.ts repeats part 000 with the credential fallback
  of part 002.
\<close>

section \<open>JavaScript values\<close>

text \<open>
  The values that flow through the server: query parameter values
  (\<^verbatim>\<open>Record<string, unknown>\<close>), tool arguments and the JSON documents returned by
  the upstream API. A JavaScript number is modelled by an integer: the tool layer passes
  page numbers and limits, and the decimal form of an integer is what \<^verbatim>\<open>String\<close>
  prints for it. An object is the list of its own properties in insertion order, which is
  the order in which \<^verbatim>\<open>Object.entries\<close> enumerates them.
\<close>

datatype jsval =
    JUndefined
  | JNull
  | JBool bool
  | JNum int
  | JStr string
  | JArr "jsval list"
  | JObj "(string \<times> jsval) list"

text \<open>The condition of \<^verbatim>\<open>if (value)\<close> and the left operand of \<^verbatim>\<open>||\<close>.\<close>

fun truthy :: "jsval \<Rightarrow> bool" where
  "truthy JUndefined = False"
| "truthy JNull = False"
| "truthy (JBool b) = b"
| "truthy (JNum n) = (n \<noteq> 0)"
| "truthy (JStr s) = (s \<noteq> [])"
| "truthy (JArr xs) = True"
| "truthy (JObj kvs) = True"

definition digit_char :: "nat \<Rightarrow> char" where
  "digit_char d = ''0123456789'' ! d"

fun nat_to_string :: "nat \<Rightarrow> string" where
  "nat_to_string n =
     (if n < 10 then [digit_char n]
      else nat_to_string (n div 10) @ [digit_char (n mod 10)])"

declare nat_to_string.simps [simp del]

definition int_to_string :: "int \<Rightarrow> string" where
  "int_to_string i = (if i < 0 then CHR ''-'' # nat_to_string (nat (- i)) else nat_to_string (nat i))"

fun join_comma :: "string list \<Rightarrow> string" where
  "join_comma [] = []"
| "join_comma [x] = x"
| "join_comma (x # y # ys) = x @ '','' @ join_comma (y # ys)"

text \<open>\<^verbatim>\<open>String(value)\<close>, which is also what a template literal applies to a value.\<close>

fun js_String :: "jsval \<Rightarrow> string" where
  "js_String JUndefined = ''undefined''"
| "js_String JNull = ''null''"
| "js_String (JBool b) = (if b then ''true'' else ''false'')"
| "js_String (JNum n) = int_to_string n"
| "js_String (JStr s) = s"
| "js_String (JArr xs) =
     join_comma (map (\<lambda>x. if x = JUndefined \<or> x = JNull then [] else js_String x) xs)"
| "js_String (JObj kvs) = ''[object Object]''"

text \<open>
  A thrown value: an \<^verbatim>\<open>Error\<close> object with its name and message. A rejected
  \<^verbatim>\<open>fetch\<close>, a failed \<^verbatim>\<open>response.json()\<close> and the client's own
  \<^verbatim>\<open>new Error(...)\<close> are all of this shape. \<open>error_toString\<close> is the string a
  template literal makes of it.
\<close>

datatype js_error = JsError (err_name: string) (err_message: string)

definition error_toString :: "js_error \<Rightarrow> string" where
  "error_toString e =
     (if err_name e = [] then err_message e
      else if err_message e = [] then err_name e
      else err_name e @ '': '' @ err_message e)"

definition startsWith :: "string \<Rightarrow> string \<Rightarrow> bool" where
  "startsWith s p = (take (length p) s = p)"

definition substring :: "string \<Rightarrow> nat \<Rightarrow> string" where
  "substring s n = drop n s"

section \<open>Requests, responses and the upstream\<close>

text \<open>
  A URL is kept as the string handed to the \<^verbatim>\<open>URL\<close> constructor together with the
  name/value pairs appended to its \<^verbatim>\<open>searchParams\<close>, in order. The upstream is a
  function from a request and the state of the outside world to the outcome of
  \<^verbatim>\<open>fetch\<close>: a rejection, or a response with its \<^verbatim>\<open>ok\<close> flag, status, status text
  and the outcome of \<^verbatim>\<open>response.json()\<close>. Every request handed to \<^verbatim>\<open>fetch\<close> is
  recorded in \<open>sent\<close>. The percent-encoding and the path normalisation of the
  \<^verbatim>\<open>URL\<close> class and the diagnostic lines written to the console are left out.
\<close>

record js_url =
  href :: string
  searchParams :: "(string \<times> string) list"

record request =
  req_url :: js_url
  req_headers :: "(string \<times> string) list"

record response =
  ok :: bool
  status :: int
  statusText :: string
  json :: "js_error + jsval"

record 'w runtime =
  validApiKey :: string
  fetch :: "request \<Rightarrow> 'w \<Rightarrow> (js_error + response) \<times> 'w"
  JSON_stringify :: "jsval \<Rightarrow> nat \<Rightarrow> string"

record 'w state =
  world :: 'w
  sent :: "request list"

definition API_BASE_URL :: string where
  "API_BASE_URL = ''https://play.limitlesstcg.com/api''"

definition new_URL :: "string \<Rightarrow> js_url" where
  "new_URL s = \<lparr>href = s, searchParams = []\<rparr>"

definition searchParams_append :: "string \<Rightarrow> string \<Rightarrow> js_url \<Rightarrow> js_url" where
  "searchParams_append k v u = u\<lparr>searchParams := searchParams u @ [(k, v)]\<rparr>"

section \<open>The request client with fallback (part 000, part 001, part 002)\<close>

definition cleanEndpoint :: "string \<Rightarrow> string" where
  "cleanEndpoint endpoint =
     (if startsWith endpoint ''/'' then substring endpoint 1 else endpoint)"

text \<open>The loop over \<^verbatim>\<open>Object.entries(params)\<close>.\<close>

definition add_query_parameters :: "(string \<times> jsval) list \<Rightarrow> js_url \<Rightarrow> js_url" where
  "add_query_parameters params u =
     fold (\<lambda>(key, val) u'. if val \<noteq> JUndefined then searchParams_append key (js_String val) u' else u')
       params u"

text \<open>
  The query parameter set as the specification describes it: entries whose value is
  undefined are omitted, every retained value is serialised to its string form. The loop
  above is compared with it below.
\<close>

definition retained_parameters :: "(string \<times> jsval) list \<Rightarrow> (string \<times> string) list" where
  "retained_parameters params =
     map (\<lambda>(key, val). (key, js_String val)) (filter (\<lambda>(key, val). val \<noteq> JUndefined) params)"

text \<open>Everything \<open>limitlessRequest\<close> does before its \<^verbatim>\<open>try\<close>: the URL and the headers.\<close>

definition build_request ::
  "'w runtime \<Rightarrow> string \<Rightarrow> (string \<times> jsval) list \<Rightarrow> bool \<Rightarrow> request" where
  "build_request rt endpoint params useHeaderAuth =
     (let url = new_URL (API_BASE_URL @ ''/'' @ cleanEndpoint endpoint);
          url = add_query_parameters params url
      in if useHeaderAuth
         then \<lparr>req_url = url, req_headers = [(''X-Access-Key'', validApiKey rt)]\<rparr>
         else \<lparr>req_url = searchParams_append ''key'' (validApiKey rt) url, req_headers = []\<rparr>)"

text \<open>
  The body of the \<^verbatim>\<open>try\<close>: one \<^verbatim>\<open>fetch\<close>, the check of \<^verbatim>\<open>response.ok\<close>, and
  \<^verbatim>\<open>response.json()\<close>. \<open>Inl\<close> is what the body throws.
\<close>

definition api_request_failed :: "response \<Rightarrow> js_error" where
  "api_request_failed r =
     JsError ''Error''
       (''API request failed: '' @ js_String (JNum (status r)) @ '' '' @ statusText r)"

definition fetched :: "request \<Rightarrow> 'w \<Rightarrow> 'w state \<Rightarrow> 'w state" where
  "fetched req w' s = s\<lparr>world := w', sent := sent s @ [req]\<rparr>"

definition try_fetch :: "'w runtime \<Rightarrow> request \<Rightarrow> 'w state \<Rightarrow> (js_error + jsval) \<times> 'w state" where
  "try_fetch rt req s =
     (case fetch rt req (world s) of
        (outcome, w') \<Rightarrow>
          (let s' = fetched req w' s
           in case outcome of
                Inl err \<Rightarrow> (Inl err, s')
              | Inr r \<Rightarrow>
                  if \<not> ok r then (Inl (api_request_failed r), s')
                  else (json r, s')))"

function limitlessRequest ::
  "'w runtime \<Rightarrow> string \<Rightarrow> (string \<times> jsval) list \<Rightarrow> bool \<Rightarrow> 'w state
     \<Rightarrow> (js_error + jsval) \<times> 'w state" where
  "limitlessRequest rt endpoint params useHeaderAuth s =
     (case try_fetch rt (build_request rt endpoint params useHeaderAuth) s of
        (Inr data, s') \<Rightarrow> (Inr data, s')
      | (Inl err, s') \<Rightarrow>
          if \<not> useHeaderAuth then limitlessRequest rt endpoint params True s'
          else (Inl err, s'))"
  by pat_completeness auto
termination
  by (relation "measure (\<lambda>(rt, endpoint, params, useHeaderAuth, s). if useHeaderAuth then 0 else 1)")
     auto

declare limitlessRequest.simps [simp del]

section \<open>The header-only request client (server.ts)\<close>

definition build_request_server ::
  "'w runtime \<Rightarrow> string \<Rightarrow> (string \<times> jsval) list \<Rightarrow> request" where
  "build_request_server rt endpoint params =
     (let url = new_URL (API_BASE_URL @ ''/'' @ endpoint);
          url = add_query_parameters params url
      in \<lparr>req_url = url, req_headers = [(''X-Access-Key'', validApiKey rt)]\<rparr>)"

definition limitlessRequest_server ::
  "'w runtime \<Rightarrow> string \<Rightarrow> (string \<times> jsval) list \<Rightarrow> 'w state \<Rightarrow> (js_error + jsval) \<times> 'w state" where
  "limitlessRequest_server rt endpoint params s =
     (case try_fetch rt (build_request_server rt endpoint params) s of
        (Inr data, s') \<Rightarrow> (Inr data, s')
      | (Inl err, s') \<Rightarrow> (Inl err, s'))"

section \<open>The tool handlers with title (part 000)\<close>

text \<open>
  \<open>tournaments_args\<close> holds the five properties of the argument object of
  \<^verbatim>\<open>get_tournaments\<close>, each a JavaScript value, \<open>JUndefined\<close> where the object has no
  such property. The handlers of this section are the callbacks registered with
  \<^verbatim>\<open>server.tool\<close>: the framework calls them with the arguments that the schema yields.
  The schemas, and the tool as a caller invokes it, follow the handlers below. An envelope
  without the \<^verbatim>\<open>isError\<close> property has \<open>isError = False\<close>. A handler is an
  asynchronous function: \<open>Inl\<close> is a rejection that leaves the handler, \<open>Inr\<close> the
  envelope it returns.
\<close>

record tournaments_args =
  game :: jsval
  format :: jsval
  organizerId :: jsval
  limit :: jsval
  page :: jsval

record content_block =
  block_type :: string
  block_text :: string

record envelope =
  isError :: bool
  content :: "content_block list"

definition text_result :: "string \<Rightarrow> envelope" where
  "text_result t = \<lparr>isError = False, content = [\<lparr>block_type = ''text'', block_text = t\<rparr>]\<rparr>"

definition error_result :: "string \<Rightarrow> envelope" where
  "error_result t = \<lparr>isError = True, content = [\<lparr>block_type = ''text'', block_text = t\<rparr>]\<rparr>"

definition newline2 :: string where
  "newline2 = [CHR 0x0A, CHR 0x0A]"

text \<open>The assignments \<^verbatim>\<open>if (game) queryParams.game = game;\<close> and the four after it.\<close>

definition get_tournaments_queryParams :: "tournaments_args \<Rightarrow> (string \<times> jsval) list" where
  "get_tournaments_queryParams a =
     (let queryParams = [];
          queryParams = (if truthy (game a) then AList.update ''game'' (game a) queryParams else queryParams);
          queryParams = (if truthy (format a) then AList.update ''format'' (format a) queryParams else queryParams);
          queryParams = (if truthy (organizerId a) then AList.update ''organizerId'' (organizerId a) queryParams else queryParams);
          queryParams = (if truthy (limit a) then AList.update ''limit'' (limit a) queryParams else queryParams);
          queryParams = (if truthy (page a) then AList.update ''page'' (page a) queryParams else queryParams)
      in queryParams)"

definition get_tournaments_title :: "tournaments_args \<Rightarrow> string" where
  "get_tournaments_title a =
     (let title = ''Limitless Tournaments'';
          title = (if truthy (game a) then title @ '' - '' @ js_String (game a) else title);
          title = (if truthy (format a) then title @ '' ('' @ js_String (format a) @ '' format)'' else title);
          title = (if truthy (organizerId a) then title @ '' by organizer '' @ js_String (organizerId a) else title);
          title = (if truthy (limit a) then title @ '' (limited to '' @ js_String (limit a) @ '')'' else title);
          title = (if truthy (page a) then title @ '' - Page '' @ js_String (page a) else title)
      in title)"

definition get_tournaments_try ::
  "'w runtime \<Rightarrow> tournaments_args \<Rightarrow> 'w state \<Rightarrow> (js_error + envelope) \<times> 'w state" where
  "get_tournaments_try rt a s =
     (case limitlessRequest rt ''tournaments'' (get_tournaments_queryParams a) False s of
        (Inl err, s') \<Rightarrow> (Inl err, s')
      | (Inr tournaments, s') \<Rightarrow>
          (Inr (text_result (''# '' @ get_tournaments_title a @ newline2
                               @ JSON_stringify rt tournaments 2)), s'))"

definition get_tournaments ::
  "'w runtime \<Rightarrow> tournaments_args \<Rightarrow> 'w state \<Rightarrow> (js_error + envelope) \<times> 'w state" where
  "get_tournaments rt a s =
     (case get_tournaments_try rt a s of
        (Inr res, s') \<Rightarrow> (Inr res, s')
      | (Inl err, s') \<Rightarrow>
          (Inr (error_result (''Error fetching tournaments: '' @ error_toString err)), s'))"

text \<open>
  \<^verbatim>\<open>tournament.name\<close>: reading a property of \<^verbatim>\<open>null\<close> or \<^verbatim>\<open>undefined\<close> throws a
  \<^verbatim>\<open>TypeError\<close> (its message is the engine's), an object yields the property or
  \<^verbatim>\<open>undefined\<close>, and a string, number, boolean or array has no property of that name.
\<close>

definition get_name :: "jsval \<Rightarrow> js_error + jsval" where
  "get_name v =
     (case v of
        JUndefined \<Rightarrow> Inl (JsError ''TypeError'' ''Cannot read properties of undefined'')
      | JNull \<Rightarrow> Inl (JsError ''TypeError'' ''Cannot read properties of null'')
      | JObj kvs \<Rightarrow> Inr (case map_of kvs ''name'' of Some x \<Rightarrow> x | None \<Rightarrow> JUndefined)
      | _ \<Rightarrow> Inr JUndefined)"

definition get_tournament_details_try ::
  "'w runtime \<Rightarrow> string \<Rightarrow> 'w state \<Rightarrow> (js_error + envelope) \<times> 'w state" where
  "get_tournament_details_try rt tid s =
     (case limitlessRequest rt (''tournaments/'' @ tid @ ''/details'') [] False s of
        (Inl err, s') \<Rightarrow> (Inl err, s')
      | (Inr tournament, s') \<Rightarrow>
          (case get_name tournament of
             Inl err \<Rightarrow> (Inl err, s')
           | Inr nm \<Rightarrow>
               (Inr (text_result (''# Tournament: '' @ (if truthy nm then js_String nm else tid)
                                    @ newline2 @ JSON_stringify rt tournament 2)), s')))"

definition get_tournament_details ::
  "'w runtime \<Rightarrow> string \<Rightarrow> 'w state \<Rightarrow> (js_error + envelope) \<times> 'w state" where
  "get_tournament_details rt tid s =
     (case get_tournament_details_try rt tid s of
        (Inr res, s') \<Rightarrow> (Inr res, s')
      | (Inl err, s') \<Rightarrow>
          (Inr (error_result (''Error fetching tournament details: '' @ error_toString err)), s'))"

definition get_tournament_standings_try ::
  "'w runtime \<Rightarrow> string \<Rightarrow> 'w state \<Rightarrow> (js_error + envelope) \<times> 'w state" where
  "get_tournament_standings_try rt tid s =
     (case limitlessRequest rt (''tournaments/'' @ tid @ ''/standings'') [] False s of
        (Inl err, s') \<Rightarrow> (Inl err, s')
      | (Inr standings, s') \<Rightarrow>
          (Inr (text_result (''# Tournament Standings'' @ newline2
                               @ JSON_stringify rt standings 2)), s'))"

definition get_tournament_standings ::
  "'w runtime \<Rightarrow> string \<Rightarrow> 'w state \<Rightarrow> (js_error + envelope) \<times> 'w state" where
  "get_tournament_standings rt tid s =
     (case get_tournament_standings_try rt tid s of
        (Inr res, s') \<Rightarrow> (Inr res, s')
      | (Inl err, s') \<Rightarrow>
          (Inr (error_result (''Error fetching tournament standings: '' @ error_toString err)), s'))"

definition get_tournament_pairings_try ::
  "'w runtime \<Rightarrow> string \<Rightarrow> 'w state \<Rightarrow> (js_error + envelope) \<times> 'w state" where
  "get_tournament_pairings_try rt tid s =
     (case limitlessRequest rt (''tournaments/'' @ tid @ ''/pairings'') [] False s of
        (Inl err, s') \<Rightarrow> (Inl err, s')
      | (Inr pairings, s') \<Rightarrow>
          (Inr (text_result (''# Tournament Pairings'' @ newline2
                               @ JSON_stringify rt pairings 2)), s'))"

definition get_tournament_pairings ::
  "'w runtime \<Rightarrow> string \<Rightarrow> 'w state \<Rightarrow> (js_error + envelope) \<times> 'w state" where
  "get_tournament_pairings rt tid s =
     (case get_tournament_pairings_try rt tid s of
        (Inr res, s') \<Rightarrow> (Inr res, s')
      | (Inl err, s') \<Rightarrow>
          (Inr (error_result (''Error fetching tournament pairings: '' @ error_toString err)), s'))"

section \<open>The tool handlers of server.ts\<close>

text \<open>
  The callbacks of the same four tools over the header-only client; the payload is
  \<^verbatim>\<open>JSON.stringify(result)\<close> with no title and no indentation (indent \<open>0\<close>).
  \<open>get_tournaments_server\<close> is the callback alone: the schema of server.ts, which gives
  \<open>game\<close> its default before the callback runs, is part of
  \<open>tool_get_tournaments_server\<close> in the next section.
\<close>

definition get_tournaments_server_try ::
  "'w runtime \<Rightarrow> tournaments_args \<Rightarrow> 'w state \<Rightarrow> (js_error + envelope) \<times> 'w state" where
  "get_tournaments_server_try rt a s =
     (case limitlessRequest_server rt ''tournaments'' (get_tournaments_queryParams a) s of
        (Inl err, s') \<Rightarrow> (Inl err, s')
      | (Inr tournaments, s') \<Rightarrow> (Inr (text_result (JSON_stringify rt tournaments 0)), s'))"

definition get_tournaments_server ::
  "'w runtime \<Rightarrow> tournaments_args \<Rightarrow> 'w state \<Rightarrow> (js_error + envelope) \<times> 'w state" where
  "get_tournaments_server rt a s =
     (case get_tournaments_server_try rt a s of
        (Inr res, s') \<Rightarrow> (Inr res, s')
      | (Inl err, s') \<Rightarrow>
          (Inr (error_result (''Error fetching tournaments: '' @ error_toString err)), s'))"

definition get_tournament_details_server_try ::
  "'w runtime \<Rightarrow> string \<Rightarrow> 'w state \<Rightarrow> (js_error + envelope) \<times> 'w state" where
  "get_tournament_details_server_try rt tid s =
     (case limitlessRequest_server rt (''tournaments/'' @ tid @ ''/details'') [] s of
        (Inl err, s') \<Rightarrow> (Inl err, s')
      | (Inr tournament, s') \<Rightarrow> (Inr (text_result (JSON_stringify rt tournament 0)), s'))"

definition get_tournament_details_server ::
  "'w runtime \<Rightarrow> string \<Rightarrow> 'w state \<Rightarrow> (js_error + envelope) \<times> 'w state" where
  "get_tournament_details_server rt tid s =
     (case get_tournament_details_server_try rt tid s of
        (Inr res, s') \<Rightarrow> (Inr res, s')
      | (Inl err, s') \<Rightarrow>
          (Inr (error_result (''Error fetching tournament details: '' @ error_toString err)), s'))"

definition get_tournament_standings_server_try ::
  "'w runtime \<Rightarrow> string \<Rightarrow> 'w state \<Rightarrow> (js_error + envelope) \<times> 'w state" where
  "get_tournament_standings_server_try rt tid s =
     (case limitlessRequest_server rt (''tournaments/'' @ tid @ ''/standings'') [] s of
        (Inl err, s') \<Rightarrow> (Inl err, s')
      | (Inr standings, s') \<Rightarrow> (Inr (text_result (JSON_stringify rt standings 0)), s'))"

definition get_tournament_standings_server ::
  "'w runtime \<Rightarrow> string \<Rightarrow> 'w state \<Rightarrow> (js_error + envelope) \<times> 'w state" where
  "get_tournament_standings_server rt tid s =
     (case get_tournament_standings_server_try rt tid s of
        (Inr res, s') \<Rightarrow> (Inr res, s')
      | (Inl err, s') \<Rightarrow>
          (Inr (error_result (''Error fetching tournament standings: '' @ error_toString err)), s'))"

definition get_tournament_pairings_server_try ::
  "'w runtime \<Rightarrow> string \<Rightarrow> 'w state \<Rightarrow> (js_error + envelope) \<times> 'w state" where
  "get_tournament_pairings_server_try rt tid s =
     (case limitlessRequest_server rt (''tournaments/'' @ tid @ ''/pairings'') [] s of
        (Inl err, s') \<Rightarrow> (Inl err, s')
      | (Inr pairings, s') \<Rightarrow> (Inr (text_result (JSON_stringify rt pairings 0)), s'))"

definition get_tournament_pairings_server ::
  "'w runtime \<Rightarrow> string \<Rightarrow> 'w state \<Rightarrow> (js_error + envelope) \<times> 'w state" where
  "get_tournament_pairings_server rt tid s =
     (case get_tournament_pairings_server_try rt tid s of
        (Inr res, s') \<Rightarrow> (Inr res, s')
      | (Inl err, s') \<Rightarrow>
          (Inr (error_result (''Error fetching tournament pairings: '' @ error_toString err)), s'))"

section \<open>The argument schemas of get_tournaments\<close>

text \<open>
  \<^verbatim>\<open>server.tool\<close> registers a handler together with the shape of its schema. The
  framework parses the arguments of a call with that schema and calls the handler with the
  result; arguments the schema refuses never reach the handler. A schema is a function
  from the value it is given to the value it yields, \<open>None\<close> when it refuses. The
  combinators are those of the schema library that the sources use: \<^verbatim>\<open>optional\<close> lets
  \<^verbatim>\<open>undefined\<close> through, \<^verbatim>\<open>nullable\<close> lets \<^verbatim>\<open>null\<close> through, \<^verbatim>\<open>nullish\<close> both, and
  \<^verbatim>\<open>default\<close> replaces \<^verbatim>\<open>undefined\<close> by the default before the inner schema runs.
\<close>

type_synonym zod = "jsval \<Rightarrow> jsval option"

definition z_string :: zod where
  "z_string v = (case v of JStr s \<Rightarrow> Some v | _ \<Rightarrow> None)"

definition z_number :: zod where
  "z_number v = (case v of JNum n \<Rightarrow> Some v | _ \<Rightarrow> None)"

definition z_enum :: "string list \<Rightarrow> zod" where
  "z_enum vals v = (case v of JStr s \<Rightarrow> if s \<in> set vals then Some v else None | _ \<Rightarrow> None)"

definition z_union :: "zod \<Rightarrow> zod \<Rightarrow> zod" where
  "z_union p q v = (case p v of Some r \<Rightarrow> Some r | None \<Rightarrow> q v)"

definition z_optional :: "zod \<Rightarrow> zod" where
  "z_optional p v = (if v = JUndefined then Some JUndefined else p v)"

definition z_nullable :: "zod \<Rightarrow> zod" where
  "z_nullable p v = (if v = JNull then Some JNull else p v)"

definition z_nullish :: "zod \<Rightarrow> zod" where
  "z_nullish p = z_optional (z_nullable p)"

definition z_default :: "zod \<Rightarrow> jsval \<Rightarrow> zod" where
  "z_default p d v = (if v = JUndefined then p d else p v)"

definition GAMES :: "string list" where
  "GAMES = [''DBS'', ''FW'', ''POCKET'', ''VGC'', ''LORCANA'', ''BSS'', ''OP'', ''SWU'', ''PGO'',
            ''GUNDAM'', ''DCG'', ''other'', ''PTCG'']"

definition GAME_ENUM :: zod where
  "GAME_ENUM = z_enum GAMES"

text \<open>
  \<open>tournamentsParamsSchema\<close> is the schema of part 000, where \<open>game\<close> is
  \<^verbatim>\<open>GAME_ENUM.nullish()\<close>; \<open>tournamentsParamsSchema_server\<close> is the schema of server.ts,
  where \<open>game\<close> is \<^verbatim>\<open>z.enum(GAMES).optional().default('VGC')\<close>. The other four
  properties have the same schema in both. The record of arguments holds the properties
  of the call as the caller sent them on the way in, and the values the handler is called
  with on the way out.
\<close>

definition tournamentsParamsSchema :: "tournaments_args \<Rightarrow> tournaments_args option" where
  "tournamentsParamsSchema raw =
     (case z_nullish GAME_ENUM (game raw) of None \<Rightarrow> None | Some g \<Rightarrow>
      case z_nullish z_string (format raw) of None \<Rightarrow> None | Some f \<Rightarrow>
      case z_nullish z_string (organizerId raw) of None \<Rightarrow> None | Some ob \<Rightarrow>
      case z_optional (z_nullable (z_union z_string z_number)) (limit raw) of None \<Rightarrow> None | Some l \<Rightarrow>
      case z_optional (z_nullable (z_union z_string z_number)) (page raw) of None \<Rightarrow> None | Some p \<Rightarrow>
        Some \<lparr>game = g, format = f, organizerId = ob, limit = l, page = p\<rparr>)"

definition tournamentsParamsSchema_server :: "tournaments_args \<Rightarrow> tournaments_args option" where
  "tournamentsParamsSchema_server raw =
     (case z_default (z_optional (z_enum GAMES)) (JStr ''VGC'') (game raw) of None \<Rightarrow> None | Some g \<Rightarrow>
      case z_nullish z_string (format raw) of None \<Rightarrow> None | Some f \<Rightarrow>
      case z_nullish z_string (organizerId raw) of None \<Rightarrow> None | Some ob \<Rightarrow>
      case z_optional (z_nullable (z_union z_string z_number)) (limit raw) of None \<Rightarrow> None | Some l \<Rightarrow>
      case z_optional (z_nullable (z_union z_string z_number)) (page raw) of None \<Rightarrow> None | Some p \<Rightarrow>
        Some \<lparr>game = g, format = f, organizerId = ob, limit = l, page = p\<rparr>)"

text \<open>
  One invocation of the tool \<^verbatim>\<open>get_tournaments\<close>: the schema, then the handler. \<open>None\<close>
  is the refusal by the schema, after which no request has been made.
\<close>

definition tool_get_tournaments ::
  "'w runtime \<Rightarrow> tournaments_args \<Rightarrow> 'w state
     \<Rightarrow> ((js_error + envelope) \<times> 'w state) option" where
  "tool_get_tournaments rt raw s =
     (case tournamentsParamsSchema raw of
        None \<Rightarrow> None
      | Some a \<Rightarrow> Some (get_tournaments rt a s))"

definition tool_get_tournaments_server ::
  "'w runtime \<Rightarrow> tournaments_args \<Rightarrow> 'w state
     \<Rightarrow> ((js_error + envelope) \<times> 'w state) option" where
  "tool_get_tournaments_server rt raw s =
     (case tournamentsParamsSchema_server raw of
        None \<Rightarrow> None
      | Some a \<Rightarrow> Some (get_tournaments_server rt a s))"

section \<open>The resource handlers (part 001)\<close>

text \<open>
  In the variants that register resources instead of tools, a handler awaits the client
  outside any \<^verbatim>\<open>try\<close>. The tournament list resource of part 001:
\<close>

record resource_content =
  rc_uri :: string
  rc_title :: string
  rc_description :: string
  rc_text :: string

definition tournaments_resource ::
  "'w runtime \<Rightarrow> string \<Rightarrow> 'w state \<Rightarrow> (js_error + resource_content list) \<times> 'w state" where
  "tournaments_resource rt uri_href s =
     (case limitlessRequest rt ''tournaments'' [] False s of
        (Inl err, s') \<Rightarrow> (Inl err, s')
      | (Inr tournaments, s') \<Rightarrow>
          (Inr [\<lparr>rc_uri = uri_href,
                 rc_title = ''Limitless TCG Tournaments'',
                 rc_description = ''List of tournaments from Limitless TCG'',
                 rc_text = JSON_stringify rt tournaments 2\<rparr>], s'))"

section \<open>Credential resolution at process start\<close>

text \<open>
  \<open>getApiKey\<close> reads \<^verbatim>\<open>process.env.LIMITLESS_API_KEY\<close> (\<open>None\<close> when unset) and
  \<^verbatim>\<open>process.argv\<close>; \<open>None\<close> is its \<^verbatim>\<open>null\<close>. The strict variants (server.ts,
  part 000, part 001) exit with code 1 after one line on the error stream when the result is
  falsy; part 002 and the second listing of server.ts substitute a fixed token instead.
\<close>

fun split_on :: "char \<Rightarrow> string \<Rightarrow> string list" where
  "split_on c [] = [] # []"
| "split_on c (x # xs) =
     (if x = c then [] # split_on c xs
      else (case split_on c xs of
              [] \<Rightarrow> [x] # []
            | p # ps \<Rightarrow> (x # p) # ps))"

definition getApiKey :: "string option \<Rightarrow> string list \<Rightarrow> string option" where
  "getApiKey env_key argv =
     (if env_key \<noteq> None \<and> env_key \<noteq> Some [] then env_key
      else (case find (\<lambda>arg. startsWith arg ''api-key='') argv of
              None \<Rightarrow> None
            | Some apiKeyArg \<Rightarrow>
                if apiKeyArg \<noteq> []
                then (case split_on CHR ''='' apiKeyArg of
                        _ # v # _ \<Rightarrow> Some v
                      | _ \<Rightarrow> None)
                else None))"

datatype process = Exited int "string list" | Serving string



definition startup_default :: "string option \<Rightarrow> string list \<Rightarrow> process" where
  "startup_default env_key argv =
     (case getApiKey env_key argv of
        None \<Rightarrow> Serving ''dddc5b23b5bae0a87ca800c20d336022''
      | Some apiKey \<Rightarrow>
          if apiKey = [] then Serving ''dddc5b23b5bae0a87ca800c20d336022'' else Serving apiKey)"




section \<open>Simulated upstreams\<close>

text \<open>
  Three upstreams over a world that counts the exchanges: one that accepts the credential
  only in the \<^verbatim>\<open>X-Access-Key\<close> header, one that is unreachable, and one that answers
  every request. \<open>plain_stringify\<close> stands in for \<^verbatim>\<open>JSON.stringify\<close>.
\<close>

definition plain_stringify :: "jsval \<Rightarrow> nat \<Rightarrow> string" where
  "plain_stringify v indent = js_String v"

definition header_only_upstream :: "request \<Rightarrow> nat \<Rightarrow> (js_error + response) \<times> nat" where
  "header_only_upstream req n =
     (if map_of (req_headers req) ''X-Access-Key'' = Some ''secret''
      then (Inr \<lparr>ok = True, status = 200, statusText = ''OK'', json = Inr (JArr [])\<rparr>, Suc n)
      else (Inr \<lparr>ok = False, status = 403, statusText = ''Forbidden'',
                 json = Inr (JObj [(''message'', JStr ''Forbidden'')])\<rparr>, Suc n))"

definition unreachable_upstream :: "request \<Rightarrow> nat \<Rightarrow> (js_error + response) \<times> nat" where
  "unreachable_upstream req n = (Inl (JsError ''TypeError'' ''fetch failed''), Suc n)"

definition open_upstream :: "request \<Rightarrow> nat \<Rightarrow> (js_error + response) \<times> nat" where
  "open_upstream req n =
     (Inr \<lparr>ok = True, status = 200, statusText = ''OK'', json = Inr (JArr [])\<rparr>, Suc n)"

definition rt_header_only :: "nat runtime" where
  "rt_header_only =
     \<lparr>validApiKey = ''secret'', fetch = header_only_upstream, JSON_stringify = plain_stringify\<rparr>"

definition rt_unreachable :: "nat runtime" where
  "rt_unreachable =
     \<lparr>validApiKey = ''secret'', fetch = unreachable_upstream, JSON_stringify = plain_stringify\<rparr>"

definition rt_open :: "nat runtime" where
  "rt_open =
     \<lparr>validApiKey = ''secret'', fetch = open_upstream, JSON_stringify = plain_stringify\<rparr>"

definition s0 :: "nat state" where
  "s0 = \<lparr>world = 0, sent = []\<rparr>"

section \<open>Properties of the request client\<close>

lemma try_fetch_result:
  assumes "fetch rt req (world s) = (out, w')"
  shows "try_fetch rt req s =
           ((case out of
               Inl err \<Rightarrow> Inl err
             | Inr r \<Rightarrow> if \<not> ok r then Inl (api_request_failed r) else json r),
            fetched req w' s)"
  using assms by (simp add: try_fetch_def Let_def split: sum.splits)

lemma try_fetch_state:
  "snd (try_fetch rt req s) = fetched req (snd (fetch rt req (world s))) s"
  by (cases "fetch rt req (world s)") (simp add: try_fetch_result)

lemma try_fetch_sent: "sent (snd (try_fetch rt req s)) = sent s @ [req]"
  by (simp add: try_fetch_state fetched_def)

lemma limitlessRequest_header:
  "limitlessRequest rt ep ps True s = try_fetch rt (build_request rt ep ps True) s"
  by (subst limitlessRequest.simps) (simp split: prod.splits sum.splits)

lemma limitlessRequest_query:
  "limitlessRequest rt ep ps False s =
     (case try_fetch rt (build_request rt ep ps False) s of
        (Inr d, s') \<Rightarrow> (Inr d, s')
      | (Inl e, s') \<Rightarrow> try_fetch rt (build_request rt ep ps True) s')"
  by (subst limitlessRequest.simps) (simp add: limitlessRequest_header split: prod.splits sum.splits)

lemma limitlessRequest_server_eq:
  "limitlessRequest_server rt ep ps s = try_fetch rt (build_request_server rt ep ps) s"
  by (simp add: limitlessRequest_server_def split: prod.splits sum.splits)

lemma add_query_parameters_eq:
  "add_query_parameters ps u = u\<lparr>searchParams := searchParams u @ retained_parameters ps\<rparr>"
proof (induction ps arbitrary: u)
  case Nil
  show ?case by (simp add: add_query_parameters_def retained_parameters_def)
next
  case (Cons p ps)
  obtain k v where p: "p = (k, v)" by (cases p)
  have step: "add_query_parameters (p # ps) u =
      add_query_parameters ps (if v \<noteq> JUndefined then searchParams_append k (js_String v) u else u)"
    by (simp add: add_query_parameters_def p)
  show ?case
    unfolding step Cons.IH
    by (simp add: retained_parameters_def searchParams_append_def p)
qed

lemma build_request_query:
  "build_request rt ep ps False =
     \<lparr>req_url = \<lparr>href = API_BASE_URL @ ''/'' @ cleanEndpoint ep,
                 searchParams = retained_parameters ps @ [(''key'', validApiKey rt)]\<rparr>,
      req_headers = []\<rparr>"
  by (simp add: build_request_def Let_def add_query_parameters_eq new_URL_def searchParams_append_def)

lemma build_request_header:
  "build_request rt ep ps True =
     \<lparr>req_url = \<lparr>href = API_BASE_URL @ ''/'' @ cleanEndpoint ep,
                 searchParams = retained_parameters ps\<rparr>,
      req_headers = [(''X-Access-Key'', validApiKey rt)]\<rparr>"
  by (simp add: build_request_def Let_def add_query_parameters_eq new_URL_def)

lemma build_request_server_eq:
  "build_request_server rt ep ps =
     \<lparr>req_url = \<lparr>href = API_BASE_URL @ ''/'' @ ep, searchParams = retained_parameters ps\<rparr>,
      req_headers = [(''X-Access-Key'', validApiKey rt)]\<rparr>"
  by (simp add: build_request_server_def Let_def add_query_parameters_eq new_URL_def)

lemma retained_parameters_names:
  "fst ` set (retained_parameters ps) = {k. \<exists>v. (k, v) \<in> set ps \<and> v \<noteq> JUndefined}"
  by (force simp: retained_parameters_def)

lemma limitlessRequest_sent:
  "sent (snd (limitlessRequest rt ep ps h s)) =
     sent s @ (if h then [build_request rt ep ps True]
               else if isl (fst (try_fetch rt (build_request rt ep ps False) s))
                    then [build_request rt ep ps False, build_request rt ep ps True]
                    else [build_request rt ep ps False])"
proof (cases h)
  case True
  then show ?thesis by (simp add: limitlessRequest_header try_fetch_sent)
next
  case False
  obtain r s1 where a: "try_fetch rt (build_request rt ep ps False) s = (r, s1)"
    by (cases "try_fetch rt (build_request rt ep ps False) s")
  have s1: "sent s1 = sent s @ [build_request rt ep ps False]"
    using try_fetch_sent [of rt "build_request rt ep ps False" s] by (simp add: a)
  show ?thesis
    using False by (cases r) (simp_all add: limitlessRequest_query a s1 try_fetch_sent)
qed

lemma retained_parameters_subset: "fst ` set (retained_parameters ps) \<subseteq> fst ` set ps"
  by (induction ps) (auto simp: retained_parameters_def)

section \<open>Properties of the handlers\<close>

lemma get_tournaments_state:
  "snd (get_tournaments rt a s) =
     snd (limitlessRequest rt ''tournaments'' (get_tournaments_queryParams a) False s)"
  by (simp add: get_tournaments_def get_tournaments_try_def split: prod.splits sum.splits)

lemma get_tournaments_server_state:
  "snd (get_tournaments_server rt a s) =
     snd (limitlessRequest_server rt ''tournaments'' (get_tournaments_queryParams a) s)"
  by (simp add: get_tournaments_server_def get_tournaments_server_try_def
        split: prod.splits sum.splits)

lemma get_tournaments_caught:
  "fst (get_tournaments rt a s) =
     (case fst (limitlessRequest rt ''tournaments'' (get_tournaments_queryParams a) False s) of
        Inl e \<Rightarrow> Inr (error_result (''Error fetching tournaments: '' @ error_toString e))
      | Inr d \<Rightarrow> Inr (text_result (''# '' @ get_tournaments_title a @ newline2
                                       @ JSON_stringify rt d 2)))"
  by (simp add: get_tournaments_def get_tournaments_try_def split: prod.splits sum.splits)

lemma get_tournament_details_caught:
  "fst (get_tournament_details rt tid s) =
     (case fst (limitlessRequest rt (''tournaments/'' @ tid @ ''/details'') [] False s) of
        Inl e \<Rightarrow> Inr (error_result (''Error fetching tournament details: '' @ error_toString e))
      | Inr d \<Rightarrow>
          (case get_name d of
             Inl e \<Rightarrow>
               Inr (error_result (''Error fetching tournament details: '' @ error_toString e))
           | Inr nm \<Rightarrow>
               Inr (text_result (''# Tournament: '' @ (if truthy nm then js_String nm else tid)
                                   @ newline2 @ JSON_stringify rt d 2))))"
  by (simp add: get_tournament_details_def get_tournament_details_try_def
        split: prod.splits sum.splits)

lemma get_tournament_standings_caught:
  "fst (get_tournament_standings rt tid s) =
     (case fst (limitlessRequest rt (''tournaments/'' @ tid @ ''/standings'') [] False s) of
        Inl e \<Rightarrow> Inr (error_result (''Error fetching tournament standings: '' @ error_toString e))
      | Inr d \<Rightarrow> Inr (text_result (''# Tournament Standings'' @ newline2
                                       @ JSON_stringify rt d 2)))"
  by (simp add: get_tournament_standings_def get_tournament_standings_try_def
        split: prod.splits sum.splits)

lemma get_tournament_pairings_caught:
  "fst (get_tournament_pairings rt tid s) =
     (case fst (limitlessRequest rt (''tournaments/'' @ tid @ ''/pairings'') [] False s) of
        Inl e \<Rightarrow> Inr (error_result (''Error fetching tournament pairings: '' @ error_toString e))
      | Inr d \<Rightarrow> Inr (text_result (''# Tournament Pairings'' @ newline2
                                       @ JSON_stringify rt d 2)))"
  by (simp add: get_tournament_pairings_def get_tournament_pairings_try_def
        split: prod.splits sum.splits)

lemma get_tournaments_server_caught:
  "fst (get_tournaments_server rt a s) =
     (case fst (limitlessRequest_server rt ''tournaments'' (get_tournaments_queryParams a) s) of
        Inl e \<Rightarrow> Inr (error_result (''Error fetching tournaments: '' @ error_toString e))
      | Inr d \<Rightarrow> Inr (text_result (JSON_stringify rt d 0)))"
  by (simp add: get_tournaments_server_def get_tournaments_server_try_def
        split: prod.splits sum.splits)

lemma get_tournament_details_server_caught:
  "fst (get_tournament_details_server rt tid s) =
     (case fst (limitlessRequest_server rt (''tournaments/'' @ tid @ ''/details'') [] s) of
        Inl e \<Rightarrow> Inr (error_result (''Error fetching tournament details: '' @ error_toString e))
      | Inr d \<Rightarrow> Inr (text_result (JSON_stringify rt d 0)))"
  by (simp add: get_tournament_details_server_def get_tournament_details_server_try_def
        split: prod.splits sum.splits)

lemma get_tournament_standings_server_caught:
  "fst (get_tournament_standings_server rt tid s) =
     (case fst (limitlessRequest_server rt (''tournaments/'' @ tid @ ''/standings'') [] s) of
        Inl e \<Rightarrow> Inr (error_result (''Error fetching tournament standings: '' @ error_toString e))
      | Inr d \<Rightarrow> Inr (text_result (JSON_stringify rt d 0)))"
  by (simp add: get_tournament_standings_server_def get_tournament_standings_server_try_def
        split: prod.splits sum.splits)

lemma get_tournament_pairings_server_caught:
  "fst (get_tournament_pairings_server rt tid s) =
     (case fst (limitlessRequest_server rt (''tournaments/'' @ tid @ ''/pairings'') [] s) of
        Inl e \<Rightarrow> Inr (error_result (''Error fetching tournament pairings: '' @ error_toString e))
      | Inr d \<Rightarrow> Inr (text_result (JSON_stringify rt d 0)))"
  by (simp add: get_tournament_pairings_server_def get_tournament_pairings_server_try_def
        split: prod.splits sum.splits)

lemma tournaments_resource_uncaught:
  "fst (tournaments_resource rt uri_href s) =
     (case fst (limitlessRequest rt ''tournaments'' [] False s) of
        Inl e \<Rightarrow> Inl e
      | Inr d \<Rightarrow>
          Inr [\<lparr>rc_uri = uri_href,
                rc_title = ''Limitless TCG Tournaments'',
                rc_description = ''List of tournaments from Limitless TCG'',
                rc_text = JSON_stringify rt d 2\<rparr>])"
  by (simp add: tournaments_resource_def split: prod.splits sum.splits)

lemma unreachable_fails:
  "fst (limitlessRequest rt_unreachable ep ps useHeaderAuth s) =
     Inl (JsError ''TypeError'' ''fetch failed'')"
  by (cases useHeaderAuth)
     (simp_all add: limitlessRequest_header limitlessRequest_query try_fetch_def Let_def
        rt_unreachable_def unreachable_upstream_def)

lemma unreachable_server_fails:
  "fst (limitlessRequest_server rt_unreachable ep ps s) =
     Inl (JsError ''TypeError'' ''fetch failed'')"
  by (simp add: limitlessRequest_server_eq try_fetch_def Let_def
        rt_unreachable_def unreachable_upstream_def)

lemma build_request_names:
  "fst ` set (searchParams (req_url (build_request rt ep ps useHeaderAuth)))
     \<subseteq> insert ''key'' (fst ` set ps)"
  using retained_parameters_subset [of ps]
  by (cases useHeaderAuth) (auto simp: build_request_query build_request_header)

lemma build_request_server_names:
  "fst ` set (searchParams (req_url (build_request_server rt ep ps))) \<subseteq> fst ` set ps"
  using retained_parameters_subset [of ps] by (simp add: build_request_server_eq)

lemma limitlessRequest_new_requests:
  "set (sent (snd (limitlessRequest rt ep ps useHeaderAuth s)))
     \<subseteq> set (sent s) \<union> {build_request rt ep ps False, build_request rt ep ps True}"
  by (auto simp: limitlessRequest_sent split: if_splits)

lemma startup_default_serves: "\<exists>apiKey. startup_default env_key argv = Serving apiKey"
  by (simp add: startup_default_def split: option.splits)










section \<open>Properties of the schemas\<close>

lemma z_nullish_string_Some:
  "z_nullish z_string v = Some r \<longleftrightarrow>
     r = v \<and> (v = JUndefined \<or> v = JNull \<or> (\<exists>str. v = JStr str))"
  by (cases v) (auto simp: z_nullish_def z_optional_def z_nullable_def z_string_def)

lemma z_string_or_number_Some:
  "z_optional (z_nullable (z_union z_string z_number)) v = Some r \<longleftrightarrow>
     r = v \<and> (v = JUndefined \<or> v = JNull \<or> (\<exists>str. v = JStr str) \<or> (\<exists>n. v = JNum n))"
  by (cases v) (auto simp: z_optional_def z_nullable_def z_union_def z_string_def z_number_def)

lemma GAME_ENUM_nullish_Some:
  "z_nullish GAME_ENUM v = Some r \<longleftrightarrow>
     r = v \<and> (v = JUndefined \<or> v = JNull \<or> (\<exists>g \<in> set GAMES. v = JStr g))"
  by (cases v) (auto simp: z_nullish_def z_optional_def z_nullable_def GAME_ENUM_def z_enum_def)

lemma GAMES_default_Some:
  "z_default (z_optional (z_enum GAMES)) (JStr ''VGC'') v = Some r \<longleftrightarrow>
     (v = JUndefined \<and> r = JStr ''VGC'') \<or> (r = v \<and> (\<exists>g \<in> set GAMES. v = JStr g))"
proof -
  have vgc: "''VGC'' \<in> set GAMES" by (simp add: GAMES_def)
  show ?thesis
    using vgc by (cases v) (auto simp: z_default_def z_optional_def z_enum_def)
qed


lemma tournamentsParamsSchema_Some:
  "tournamentsParamsSchema raw = Some a \<longleftrightarrow>
     a = raw
     \<and> (game raw = JUndefined \<or> game raw = JNull \<or> (\<exists>g \<in> set GAMES. game raw = JStr g))
     \<and> (format raw = JUndefined \<or> format raw = JNull \<or> (\<exists>str. format raw = JStr str))
     \<and> (organizerId raw = JUndefined \<or> organizerId raw = JNull
          \<or> (\<exists>str. organizerId raw = JStr str))
     \<and> (limit raw = JUndefined \<or> limit raw = JNull \<or> (\<exists>str. limit raw = JStr str)
          \<or> (\<exists>n. limit raw = JNum n))
     \<and> (page raw = JUndefined \<or> page raw = JNull \<or> (\<exists>str. page raw = JStr str)
          \<or> (\<exists>n. page raw = JNum n))"
  (is "?lhs \<longleftrightarrow> ?rhs")
proof
  assume ?lhs
  then obtain g f ob l p where
    g: "z_nullish GAME_ENUM (game raw) = Some g"
    and f: "z_nullish z_string (format raw) = Some f"
    and ob: "z_nullish z_string (organizerId raw) = Some ob"
    and l: "z_optional (z_nullable (z_union z_string z_number)) (limit raw) = Some l"
    and p: "z_optional (z_nullable (z_union z_string z_number)) (page raw) = Some p"
    and a: "a = \<lparr>game = g, format = f, organizerId = ob, limit = l, page = p\<rparr>"
    by (auto simp: tournamentsParamsSchema_def split: option.splits)
  from g f ob l p have "g = game raw" "f = format raw" "ob = organizerId raw"
    "l = limit raw" "p = page raw"
    by (simp_all add: GAME_ENUM_nullish_Some z_nullish_string_Some z_string_or_number_Some)
  with a have "a = raw" by simp
  with g f ob l p show ?rhs
    by (simp add: GAME_ENUM_nullish_Some z_nullish_string_Some z_string_or_number_Some)
next
  assume r: ?rhs
  then have "z_nullish GAME_ENUM (game raw) = Some (game raw)"
    "z_nullish z_string (format raw) = Some (format raw)"
    "z_nullish z_string (organizerId raw) = Some (organizerId raw)"
    "z_optional (z_nullable (z_union z_string z_number)) (limit raw) = Some (limit raw)"
    "z_optional (z_nullable (z_union z_string z_number)) (page raw) = Some (page raw)"
    by (simp_all add: GAME_ENUM_nullish_Some z_nullish_string_Some z_string_or_number_Some)
  with r show ?lhs
    by (simp add: tournamentsParamsSchema_def)
qed

lemma tournamentsParamsSchema_server_Some:
  "tournamentsParamsSchema_server raw = Some a \<longleftrightarrow>
     a = raw\<lparr>game := (if game raw = JUndefined then JStr ''VGC'' else game raw)\<rparr>
     \<and> (game raw = JUndefined \<or> (\<exists>g \<in> set GAMES. game raw = JStr g))
     \<and> (format raw = JUndefined \<or> format raw = JNull \<or> (\<exists>str. format raw = JStr str))
     \<and> (organizerId raw = JUndefined \<or> organizerId raw = JNull
          \<or> (\<exists>str. organizerId raw = JStr str))
     \<and> (limit raw = JUndefined \<or> limit raw = JNull \<or> (\<exists>str. limit raw = JStr str)
          \<or> (\<exists>n. limit raw = JNum n))
     \<and> (page raw = JUndefined \<or> page raw = JNull \<or> (\<exists>str. page raw = JStr str)
          \<or> (\<exists>n. page raw = JNum n))"
  (is "?lhs \<longleftrightarrow> ?rhs")
proof
  assume ?lhs
  then obtain g f ob l p where
    g: "z_default (z_optional (z_enum GAMES)) (JStr ''VGC'') (game raw) = Some g"
    and f: "z_nullish z_string (format raw) = Some f"
    and ob: "z_nullish z_string (organizerId raw) = Some ob"
    and l: "z_optional (z_nullable (z_union z_string z_number)) (limit raw) = Some l"
    and p: "z_optional (z_nullable (z_union z_string z_number)) (page raw) = Some p"
    and a: "a = \<lparr>game = g, format = f, organizerId = ob, limit = l, page = p\<rparr>"
    by (auto simp: tournamentsParamsSchema_server_def split: option.splits)
  from g have g': "g = (if game raw = JUndefined then JStr ''VGC'' else game raw)"
    and gc: "game raw = JUndefined \<or> (\<exists>g \<in> set GAMES. game raw = JStr g)"
    by (auto simp: GAMES_default_Some)
  from f ob l p have "f = format raw" "ob = organizerId raw" "l = limit raw" "p = page raw"
    by (simp_all add: z_nullish_string_Some z_string_or_number_Some)
  with a g' have "a = raw\<lparr>game := (if game raw = JUndefined then JStr ''VGC'' else game raw)\<rparr>"
    by simp
  with gc f ob l p show ?rhs
    by (simp add: z_nullish_string_Some z_string_or_number_Some)
next
  assume r: ?rhs
  then have "z_default (z_optional (z_enum GAMES)) (JStr ''VGC'') (game raw) =
      Some (if game raw = JUndefined then JStr ''VGC'' else game raw)"
    by (auto simp: GAMES_default_Some)
  moreover from r have
    "z_nullish z_string (format raw) = Some (format raw)"
    "z_nullish z_string (organizerId raw) = Some (organizerId raw)"
    "z_optional (z_nullable (z_union z_string z_number)) (limit raw) = Some (limit raw)"
    "z_optional (z_nullable (z_union z_string z_number)) (page raw) = Some (page raw)"
    by (simp_all add: z_nullish_string_Some z_string_or_number_Some)
  ultimately show ?lhs
    using r by (simp add: tournamentsParamsSchema_server_def)
qed

section \<open>The requests of one get_tournaments invocation\<close>


















lemma schemas_pass_game_and_limit:
  "tool_get_tournaments rt
       \<lparr>game = JStr ''VGC'', format = JUndefined, organizerId = JUndefined,
        limit = JNum 10, page = JUndefined\<rparr> s =
     Some (get_tournaments rt
       \<lparr>game = JStr ''VGC'', format = JUndefined, organizerId = JUndefined,
        limit = JNum 10, page = JUndefined\<rparr> s)"
  "tool_get_tournaments_server rt
       \<lparr>game = JStr ''VGC'', format = JUndefined, organizerId = JUndefined,
        limit = JNum 10, page = JUndefined\<rparr> s =
     Some (get_tournaments_server rt
       \<lparr>game = JStr ''VGC'', format = JUndefined, organizerId = JUndefined,
        limit = JNum 10, page = JUndefined\<rparr> s)"
proof -
  let ?a = "\<lparr>game = JStr ''VGC'', format = JUndefined, organizerId = JUndefined,
             limit = JNum 10, page = JUndefined\<rparr>"
  have vgc: "''VGC'' \<in> set GAMES" by (simp add: GAMES_def)
  have "tournamentsParamsSchema ?a = Some ?a"
    using vgc by (simp add: tournamentsParamsSchema_Some)
  then show "tool_get_tournaments rt ?a s = Some (get_tournaments rt ?a s)"
    by (simp add: tool_get_tournaments_def)
  have "tournamentsParamsSchema_server ?a = Some ?a"
    using vgc by (simp add: tournamentsParamsSchema_server_Some)
  then show "tool_get_tournaments_server rt ?a s = Some (get_tournaments_server rt ?a s)"
    by (simp add: tool_get_tournaments_server_def)
qed

section \<open>The claims\<close>

text \<open>
  C1. A call in query-parameter mode whose attempt fails, by a rejected \<^verbatim>\<open>fetch\<close> or by a
  response that is not \<^verbatim>\<open>ok\<close>, is answered by one attempt of the same endpoint and
  parameters in header mode, made from the state the failed attempt left; the two requests
  differ only in where the credential travels. A call that fails in header mode returns
  that failure after its single request, and so does the header-only client of server.ts.
\<close>

theorem fallback_policy:
  "(fetch rt (build_request rt ep ps False) (world s) = (out, w1)
      \<and> ((\<exists>e. out = Inl e) \<or> (\<exists>r. out = Inr r \<and> \<not> ok r))
    \<longrightarrow> limitlessRequest rt ep ps False s =
          try_fetch rt (build_request rt ep ps True) (fetched (build_request rt ep ps False) w1 s)
        \<and> sent (snd (limitlessRequest rt ep ps False s)) =
            sent s @ [build_request rt ep ps False, build_request rt ep ps True]
        \<and> href (req_url (build_request rt ep ps True)) = href (req_url (build_request rt ep ps False))
        \<and> searchParams (req_url (build_request rt ep ps False)) =
            searchParams (req_url (build_request rt ep ps True)) @ [(''key'', validApiKey rt)])
   \<and> (fetch rt (build_request rt ep ps True) (world s) = (out, w1)
      \<and> ((\<exists>e. out = Inl e) \<or> (\<exists>r. out = Inr r \<and> \<not> ok r))
    \<longrightarrow> limitlessRequest rt ep ps True s =
          (Inl (case out of Inl e \<Rightarrow> e | Inr r \<Rightarrow> api_request_failed r),
           fetched (build_request rt ep ps True) w1 s)
        \<and> sent (snd (limitlessRequest rt ep ps True s)) = sent s @ [build_request rt ep ps True])
   \<and> (fetch rt (build_request_server rt ep ps) (world s) = (out, w1)
      \<and> ((\<exists>e. out = Inl e) \<or> (\<exists>r. out = Inr r \<and> \<not> ok r))
    \<longrightarrow> limitlessRequest_server rt ep ps s =
          (Inl (case out of Inl e \<Rightarrow> e | Inr r \<Rightarrow> api_request_failed r),
           fetched (build_request_server rt ep ps) w1 s)
        \<and> sent (snd (limitlessRequest_server rt ep ps s)) = sent s @ [build_request_server rt ep ps])"
proof (intro conjI impI)
  assume a: "fetch rt (build_request rt ep ps False) (world s) = (out, w1)
      \<and> ((\<exists>e. out = Inl e) \<or> (\<exists>r. out = Inr r \<and> \<not> ok r))"
  then obtain e where t: "try_fetch rt (build_request rt ep ps False) s =
      (Inl e, fetched (build_request rt ep ps False) w1 s)"
    by (auto simp: try_fetch_result)
  show "limitlessRequest rt ep ps False s =
      try_fetch rt (build_request rt ep ps True) (fetched (build_request rt ep ps False) w1 s)"
    by (simp add: limitlessRequest_query t)
  show "sent (snd (limitlessRequest rt ep ps False s)) =
      sent s @ [build_request rt ep ps False, build_request rt ep ps True]"
    by (simp add: limitlessRequest_sent t)
  show "href (req_url (build_request rt ep ps True)) = href (req_url (build_request rt ep ps False))"
    by (simp add: build_request_query build_request_header)
  show "searchParams (req_url (build_request rt ep ps False)) =
      searchParams (req_url (build_request rt ep ps True)) @ [(''key'', validApiKey rt)]"
    by (simp add: build_request_query build_request_header)
next
  assume a: "fetch rt (build_request rt ep ps True) (world s) = (out, w1)
      \<and> ((\<exists>e. out = Inl e) \<or> (\<exists>r. out = Inr r \<and> \<not> ok r))"
  then show "limitlessRequest rt ep ps True s =
      (Inl (case out of Inl e \<Rightarrow> e | Inr r \<Rightarrow> api_request_failed r),
       fetched (build_request rt ep ps True) w1 s)"
    by (auto simp: limitlessRequest_header try_fetch_result)
  show "sent (snd (limitlessRequest rt ep ps True s)) = sent s @ [build_request rt ep ps True]"
    by (simp add: limitlessRequest_sent)
next
  assume a: "fetch rt (build_request_server rt ep ps) (world s) = (out, w1)
      \<and> ((\<exists>e. out = Inl e) \<or> (\<exists>r. out = Inr r \<and> \<not> ok r))"
  then show "limitlessRequest_server rt ep ps s =
      (Inl (case out of Inl e \<Rightarrow> e | Inr r \<Rightarrow> api_request_failed r),
       fetched (build_request_server rt ep ps) w1 s)"
    by (auto simp: limitlessRequest_server_eq try_fetch_result)
  show "sent (snd (limitlessRequest_server rt ep ps s)) = sent s @ [build_request_server rt ep ps]"
    by (simp add: limitlessRequest_server_eq try_fetch_sent)
qed

theorem fallback_policy_witness:
  "limitlessRequest rt_header_only ''tournaments'' [] False s0 =
     (Inr (JArr []),
      \<lparr>world = 2,
       sent = [build_request rt_header_only ''tournaments'' [] False,
               build_request rt_header_only ''tournaments'' [] True]\<rparr>)
   \<and> limitlessRequest rt_unreachable ''tournaments'' [] True s0 =
     (Inl (JsError ''TypeError'' ''fetch failed''),
      \<lparr>world = 1, sent = [build_request rt_unreachable ''tournaments'' [] True]\<rparr>)
   \<and> limitlessRequest_server rt_unreachable ''tournaments'' [] s0 =
     (Inl (JsError ''TypeError'' ''fetch failed''),
      \<lparr>world = 1, sent = [build_request_server rt_unreachable ''tournaments'' []]\<rparr>)"
proof -
  let ?q = "build_request rt_header_only ''tournaments'' [] False"
  let ?h = "build_request rt_header_only ''tournaments'' [] True"
  let ?r = "\<lparr>ok = False, status = 403, statusText = ''Forbidden'',
             json = Inr (JObj [(''message'', JStr ''Forbidden'')])\<rparr>"
  have q: "fetch rt_header_only ?q (world s0) = (Inr ?r, 1)
      \<and> ((\<exists>e. (Inr ?r :: js_error + response) = Inl e) \<or> (\<exists>r. (Inr ?r :: js_error + response) = Inr r \<and> \<not> ok r))"
    by (simp add: build_request_query rt_header_only_def header_only_upstream_def s0_def)
  have one: "limitlessRequest rt_header_only ''tournaments'' [] False s0 =
      try_fetch rt_header_only ?h (fetched ?q 1 s0)"
    using fallback_policy [of rt_header_only "''tournaments''" "[]" s0 "Inr ?r" 1] q by blast
  have two: "try_fetch rt_header_only ?h (fetched ?q 1 s0) =
      (Inr (JArr []), \<lparr>world = 2, sent = [?q, ?h]\<rparr>)"
    by (simp add: try_fetch_def fetched_def Let_def build_request_header
          rt_header_only_def header_only_upstream_def s0_def)
  let ?hu = "build_request rt_unreachable ''tournaments'' [] True"
  have u: "fetch rt_unreachable ?hu (world s0) = (Inl (JsError ''TypeError'' ''fetch failed''), 1)
      \<and> ((\<exists>e. (Inl (JsError ''TypeError'' ''fetch failed'') :: js_error + response) = Inl e)
          \<or> (\<exists>r. (Inl (JsError ''TypeError'' ''fetch failed'') :: js_error + response) = Inr r \<and> \<not> ok r))"
    by (simp add: rt_unreachable_def unreachable_upstream_def s0_def)
  have three: "limitlessRequest rt_unreachable ''tournaments'' [] True s0 =
      (Inl (JsError ''TypeError'' ''fetch failed''), fetched ?hu 1 s0)"
    using fallback_policy [of rt_unreachable "''tournaments''" "[]" s0
        "Inl (JsError ''TypeError'' ''fetch failed'')" 1] u by simp
  let ?su = "build_request_server rt_unreachable ''tournaments'' []"
  have v: "fetch rt_unreachable ?su (world s0) = (Inl (JsError ''TypeError'' ''fetch failed''), 1)
      \<and> ((\<exists>e. (Inl (JsError ''TypeError'' ''fetch failed'') :: js_error + response) = Inl e)
          \<or> (\<exists>r. (Inl (JsError ''TypeError'' ''fetch failed'') :: js_error + response) = Inr r \<and> \<not> ok r))"
    by (simp add: rt_unreachable_def unreachable_upstream_def s0_def)
  have four: "limitlessRequest_server rt_unreachable ''tournaments'' [] s0 =
      (Inl (JsError ''TypeError'' ''fetch failed''), fetched ?su 1 s0)"
    using fallback_policy [of rt_unreachable "''tournaments''" "[]" s0
        "Inl (JsError ''TypeError'' ''fetch failed'')" 1] v by simp
  show ?thesis
    using one two three four by (simp add: fetched_def s0_def)
qed


text \<open>
  C2. A call hands at least one and at most two requests to \<^verbatim>\<open>fetch\<close>; the recursion is
  total, its only recursive call being the one from query-parameter mode into header mode.
  When the query-mode attempt fails and the header-mode attempt succeeds, the call returns
  the successful result after exactly two requests: the first carries no header, the second
  carries \<^verbatim>\<open>X-Access-Key\<close> and, of query parameters, only the retained ones (so none
  named \<^verbatim>\<open>key\<close> unless the caller passed one). A failure in header mode is returned
  after exactly one request. The header-only client of server.ts always sends one.
\<close>

theorem at_most_two_requests:
  "(\<exists>reqs. sent (snd (limitlessRequest rt ep ps h s)) = sent s @ reqs
        \<and> 1 \<le> length reqs \<and> length reqs \<le> 2)
   \<and> (try_fetch rt (build_request rt ep ps False) s = (Inl e, s1)
      \<and> try_fetch rt (build_request rt ep ps True) s1 = (Inr d, s2)
    \<longrightarrow> limitlessRequest rt ep ps False s = (Inr d, s2)
        \<and> sent s2 = sent s @ [build_request rt ep ps False, build_request rt ep ps True]
        \<and> req_headers (build_request rt ep ps False) = []
        \<and> req_headers (build_request rt ep ps True) = [(''X-Access-Key'', validApiKey rt)]
        \<and> searchParams (req_url (build_request rt ep ps True)) = retained_parameters ps
        \<and> (''key'' \<notin> fst ` set ps
             \<longrightarrow> ''key'' \<notin> fst ` set (searchParams (req_url (build_request rt ep ps True)))))
   \<and> (try_fetch rt (build_request rt ep ps True) s = (Inl e, s1)
    \<longrightarrow> limitlessRequest rt ep ps True s = (Inl e, s1)
        \<and> sent s1 = sent s @ [build_request rt ep ps True])
   \<and> sent (snd (limitlessRequest_server rt ep ps s)) = sent s @ [build_request_server rt ep ps]"
proof (intro conjI impI)
  show "\<exists>reqs. sent (snd (limitlessRequest rt ep ps h s)) = sent s @ reqs
        \<and> 1 \<le> length reqs \<and> length reqs \<le> 2"
    by (simp add: limitlessRequest_sent)
next
  assume a: "try_fetch rt (build_request rt ep ps False) s = (Inl e, s1)
      \<and> try_fetch rt (build_request rt ep ps True) s1 = (Inr d, s2)"
  show "limitlessRequest rt ep ps False s = (Inr d, s2)"
    using a by (simp add: limitlessRequest_query)
  have "sent s1 = sent s @ [build_request rt ep ps False]"
    using a try_fetch_sent [of rt "build_request rt ep ps False" s] by simp
  moreover have "sent s2 = sent s1 @ [build_request rt ep ps True]"
    using a try_fetch_sent [of rt "build_request rt ep ps True" s1] by simp
  ultimately show "sent s2 = sent s @ [build_request rt ep ps False, build_request rt ep ps True]"
    by simp
  show "req_headers (build_request rt ep ps False) = []"
    by (simp add: build_request_query)
  show "req_headers (build_request rt ep ps True) = [(''X-Access-Key'', validApiKey rt)]"
    by (simp add: build_request_header)
  show "searchParams (req_url (build_request rt ep ps True)) = retained_parameters ps"
    by (simp add: build_request_header)
next
  assume "''key'' \<notin> fst ` set ps"
  then have "''key'' \<notin> fst ` set (retained_parameters ps)"
    using retained_parameters_subset [of ps] by blast
  then show "''key'' \<notin> fst ` set (searchParams (req_url (build_request rt ep ps True)))"
    by (simp add: build_request_header)
next
  assume a: "try_fetch rt (build_request rt ep ps True) s = (Inl e, s1)"
  show "limitlessRequest rt ep ps True s = (Inl e, s1)"
    using a by (simp add: limitlessRequest_header)
  show "sent s1 = sent s @ [build_request rt ep ps True]"
    using a try_fetch_sent [of rt "build_request rt ep ps True" s] by simp
next
  show "sent (snd (limitlessRequest_server rt ep ps s)) = sent s @ [build_request_server rt ep ps]"
    by (simp add: limitlessRequest_server_eq try_fetch_sent)
qed

theorem at_most_two_requests_witness:
  "limitlessRequest rt_header_only ''tournaments'' [(''game'', JStr ''VGC'')] False s0 =
     (Inr (JArr []),
      \<lparr>world = 2,
       sent = [\<lparr>req_url = \<lparr>href = ''https://play.limitlesstcg.com/api/tournaments'',
                           searchParams = [(''game'', ''VGC''), (''key'', ''secret'')]\<rparr>,
                 req_headers = []\<rparr>,
               \<lparr>req_url = \<lparr>href = ''https://play.limitlesstcg.com/api/tournaments'',
                           searchParams = [(''game'', ''VGC'')]\<rparr>,
                 req_headers = [(''X-Access-Key'', ''secret'')]\<rparr>]\<rparr>)
   \<and> ''key'' \<notin> fst ` set (searchParams (req_url
         (build_request rt_header_only ''tournaments'' [(''game'', JStr ''VGC'')] True)))
   \<and> limitlessRequest rt_unreachable ''tournaments'' [(''game'', JStr ''VGC'')] True s0 =
     (Inl (JsError ''TypeError'' ''fetch failed''),
      \<lparr>world = 1,
       sent = [\<lparr>req_url = \<lparr>href = ''https://play.limitlesstcg.com/api/tournaments'',
                           searchParams = [(''game'', ''VGC'')]\<rparr>,
                 req_headers = [(''X-Access-Key'', ''secret'')]\<rparr>]\<rparr>)"
proof -
  let ?ps = "[(''game'', JStr ''VGC'')]"
  let ?q = "build_request rt_header_only ''tournaments'' ?ps False"
  let ?h = "build_request rt_header_only ''tournaments'' ?ps True"
  let ?s1 = "\<lparr>world = 1::nat, sent = [?q]\<rparr>"
  let ?s2 = "\<lparr>world = 2::nat, sent = [?q, ?h]\<rparr>"
  let ?e = "JsError ''Error'' ''API request failed: 403 Forbidden''"
  have status: "js_String (JNum 403) = ''403''"
    by (simp add: int_to_string_def nat_to_string.simps digit_char_def)
  have a: "try_fetch rt_header_only ?q s0 = (Inl ?e, ?s1)
      \<and> try_fetch rt_header_only ?h ?s1 = (Inr (JArr []), ?s2)"
    using status
    by (simp add: try_fetch_def fetched_def Let_def build_request_query build_request_header
          api_request_failed_def rt_header_only_def header_only_upstream_def s0_def)
  have k: "''key'' \<notin> fst ` set ?ps" by simp
  let ?hu = "build_request rt_unreachable ''tournaments'' ?ps True"
  have b: "try_fetch rt_unreachable ?hu s0 =
      (Inl (JsError ''TypeError'' ''fetch failed''), \<lparr>world = 1, sent = [?hu]\<rparr>)"
    by (simp add: try_fetch_def fetched_def Let_def rt_unreachable_def unreachable_upstream_def
          s0_def)
  have q: "?q = \<lparr>req_url = \<lparr>href = ''https://play.limitlesstcg.com/api/tournaments'',
                           searchParams = [(''game'', ''VGC''), (''key'', ''secret'')]\<rparr>,
                 req_headers = []\<rparr>"
    by (simp add: build_request_query retained_parameters_def API_BASE_URL_def cleanEndpoint_def
          startsWith_def rt_header_only_def)
  have h: "?h = \<lparr>req_url = \<lparr>href = ''https://play.limitlesstcg.com/api/tournaments'',
                           searchParams = [(''game'', ''VGC'')]\<rparr>,
                 req_headers = [(''X-Access-Key'', ''secret'')]\<rparr>"
    by (simp add: build_request_header retained_parameters_def API_BASE_URL_def cleanEndpoint_def
          startsWith_def rt_header_only_def)
  have hu: "?hu = \<lparr>req_url = \<lparr>href = ''https://play.limitlesstcg.com/api/tournaments'',
                           searchParams = [(''game'', ''VGC'')]\<rparr>,
                 req_headers = [(''X-Access-Key'', ''secret'')]\<rparr>"
    by (simp add: build_request_header retained_parameters_def API_BASE_URL_def cleanEndpoint_def
          startsWith_def rt_unreachable_def)
  have one: "limitlessRequest rt_header_only ''tournaments'' ?ps False s0 = (Inr (JArr []), ?s2)"
    using at_most_two_requests [of rt_header_only "''tournaments''" ?ps False s0 ?e ?s1 "JArr []" ?s2]
      a by blast
  have two: "''key'' \<notin> fst ` set (searchParams (req_url ?h))"
    using at_most_two_requests [of rt_header_only "''tournaments''" ?ps False s0 ?e ?s1 "JArr []" ?s2]
      a k by blast
  have three: "limitlessRequest rt_unreachable ''tournaments'' ?ps True s0 =
      (Inl (JsError ''TypeError'' ''fetch failed''), \<lparr>world = 1, sent = [?hu]\<rparr>)"
    using at_most_two_requests [of rt_unreachable "''tournaments''" ?ps True s0
        "JsError ''TypeError'' ''fetch failed''" "\<lparr>world = 1, sent = [?hu]\<rparr>"] b by blast
  show ?thesis
    using one two three unfolding q h hu by simp
qed


text \<open>
  C3. In query-parameter mode the credential is the last query parameter of the URL, under
  the name \<^verbatim>\<open>key\<close>, and the request has no header. In header mode the credential is the
  value of the header \<^verbatim>\<open>X-Access-Key\<close> and the client adds nothing to the URL for it. The
  URL string and the retained query parameters are the same in both modes. The header-only
  client of server.ts sends the credential as in header mode.
\<close>

theorem credential_placement:
  "searchParams (req_url (build_request rt ep ps False)) =
       retained_parameters ps @ [(''key'', validApiKey rt)]
   \<and> req_headers (build_request rt ep ps False) = []
   \<and> req_headers (build_request rt ep ps True) = [(''X-Access-Key'', validApiKey rt)]
   \<and> searchParams (req_url (build_request rt ep ps True)) = retained_parameters ps
   \<and> href (req_url (build_request rt ep ps False)) = href (req_url (build_request rt ep ps True))
   \<and> take (length (retained_parameters ps)) (searchParams (req_url (build_request rt ep ps False)))
       = searchParams (req_url (build_request rt ep ps True))
   \<and> req_headers (build_request_server rt ep ps) = [(''X-Access-Key'', validApiKey rt)]
   \<and> searchParams (req_url (build_request_server rt ep ps)) = retained_parameters ps"
  by (simp add: build_request_query build_request_header build_request_server_eq)

theorem credential_placement_witness:
  "searchParams (req_url (build_request rt_open ''tournaments''
       [(''game'', JStr ''VGC''), (''page'', JNum 2)] False)) =
     [(''game'', ''VGC''), (''page'', ''2''), (''key'', ''secret'')]
   \<and> req_headers (build_request rt_open ''tournaments''
       [(''game'', JStr ''VGC''), (''page'', JNum 2)] False) = []
   \<and> req_headers (build_request rt_open ''tournaments''
       [(''game'', JStr ''VGC''), (''page'', JNum 2)] True) = [(''X-Access-Key'', ''secret'')]
   \<and> searchParams (req_url (build_request rt_open ''tournaments''
       [(''game'', JStr ''VGC''), (''page'', JNum 2)] True)) =
     [(''game'', ''VGC''), (''page'', ''2'')]"
proof -
  have two: "js_String (JNum 2) = ''2''"
    by (simp add: int_to_string_def nat_to_string.simps digit_char_def)
  have r: "retained_parameters [(''game'', JStr ''VGC''), (''page'', JNum 2)] =
      [(''game'', ''VGC''), (''page'', ''2'')]"
    using two by (simp add: retained_parameters_def)
  show ?thesis
    using credential_placement [of rt_open "''tournaments''"
        "[(''game'', JStr ''VGC''), (''page'', JNum 2)]"]
    by (simp add: r rt_open_def)
qed


text \<open>
  C4. The query list of the URL is the list of the retained parameters, in the order of the
  parameter set, followed in query-parameter mode by the credential. Every entry whose
  value is not undefined appears there as its name paired with the string form of its
  value. An entry whose value is undefined contributes nothing: with the distinct names of
  an object, its name is not among the retained parameters, hence not in the URL at all in
  header mode, and in query-parameter mode only if it is the credential's own name
  \<^verbatim>\<open>key\<close>. The same holds for the header-only client of server.ts.
\<close>

theorem undefined_parameters_omitted:
  "searchParams (req_url (build_request rt ep ps useHeaderAuth)) =
       retained_parameters ps @ (if useHeaderAuth then [] else [(''key'', validApiKey rt)])
   \<and> searchParams (req_url (build_request_server rt ep ps)) = retained_parameters ps
   \<and> (\<forall>(k, v) \<in> set ps. v \<noteq> JUndefined \<longrightarrow>
         (k, js_String v) \<in> set (searchParams (req_url (build_request rt ep ps useHeaderAuth)))
       \<and> (k, js_String v) \<in> set (searchParams (req_url (build_request_server rt ep ps))))
   \<and> (\<forall>(k, v) \<in> set ps. distinct (map fst ps) \<and> v = JUndefined \<longrightarrow>
         k \<notin> fst ` set (retained_parameters ps)
       \<and> k \<notin> fst ` set (searchParams (req_url (build_request rt ep ps True)))
       \<and> k \<notin> fst ` set (searchParams (req_url (build_request_server rt ep ps)))
       \<and> (k \<noteq> ''key'' \<longrightarrow>
             k \<notin> fst ` set (searchParams (req_url (build_request rt ep ps False)))))"
proof (intro conjI)
  show "searchParams (req_url (build_request rt ep ps useHeaderAuth)) =
       retained_parameters ps @ (if useHeaderAuth then [] else [(''key'', validApiKey rt)])"
    by (cases useHeaderAuth) (simp_all add: build_request_query build_request_header)
  show "searchParams (req_url (build_request_server rt ep ps)) = retained_parameters ps"
    by (simp add: build_request_server_eq)
  have kept: "(k, js_String v) \<in> set (retained_parameters ps)"
    if "(k, v) \<in> set ps" "v \<noteq> JUndefined" for k v
    using that by (force simp: retained_parameters_def)
  show "\<forall>(k, v) \<in> set ps. v \<noteq> JUndefined \<longrightarrow>
         (k, js_String v) \<in> set (searchParams (req_url (build_request rt ep ps useHeaderAuth)))
       \<and> (k, js_String v) \<in> set (searchParams (req_url (build_request_server rt ep ps)))"
    using kept
    by (cases useHeaderAuth)
       (auto simp: build_request_query build_request_header build_request_server_eq)
  have dropped: "k \<notin> fst ` set (retained_parameters ps)"
    if "(k, JUndefined) \<in> set ps" "distinct (map fst ps)" for k
  proof
    assume "k \<in> fst ` set (retained_parameters ps)"
    then obtain v where "(k, v) \<in> set ps" "v \<noteq> JUndefined"
      by (auto simp: retained_parameters_names)
    with that show False
      by (meson eq_key_imp_eq_value)
  qed
  show "\<forall>(k, v) \<in> set ps. distinct (map fst ps) \<and> v = JUndefined \<longrightarrow>
         k \<notin> fst ` set (retained_parameters ps)
       \<and> k \<notin> fst ` set (searchParams (req_url (build_request rt ep ps True)))
       \<and> k \<notin> fst ` set (searchParams (req_url (build_request_server rt ep ps)))
       \<and> (k \<noteq> ''key'' \<longrightarrow>
             k \<notin> fst ` set (searchParams (req_url (build_request rt ep ps False))))"
    using dropped
    by (auto simp: build_request_query build_request_header build_request_server_eq)
qed

theorem undefined_parameters_omitted_witness:
  "searchParams (req_url (build_request rt_open ''tournaments''
       [(''game'', JStr ''VGC''), (''format'', JUndefined), (''limit'', JNum 10)] False)) =
     [(''game'', ''VGC''), (''limit'', ''10''), (''key'', ''secret'')]
   \<and> (''limit'', ''10'') \<in> set (searchParams (req_url (build_request rt_open ''tournaments''
       [(''game'', JStr ''VGC''), (''format'', JUndefined), (''limit'', JNum 10)] True)))
   \<and> ''format'' \<notin> fst ` set (searchParams (req_url (build_request rt_open ''tournaments''
       [(''game'', JStr ''VGC''), (''format'', JUndefined), (''limit'', JNum 10)] True)))
   \<and> ''format'' \<notin> fst ` set (searchParams (req_url (build_request rt_open ''tournaments''
       [(''game'', JStr ''VGC''), (''format'', JUndefined), (''limit'', JNum 10)] False)))"
proof -
  let ?ps = "[(''game'', JStr ''VGC''), (''format'', JUndefined), (''limit'', JNum 10)]"
  have ten: "js_String (JNum 10) = ''10''"
    by (simp add: int_to_string_def nat_to_string.simps digit_char_def)
  have r: "retained_parameters ?ps = [(''game'', ''VGC''), (''limit'', ''10'')]"
    using ten by (simp add: retained_parameters_def)
  have d: "distinct (map fst ?ps)" by simp
  note t = undefined_parameters_omitted [of rt_open "''tournaments''" ?ps]
  have one: "searchParams (req_url (build_request rt_open ''tournaments'' ?ps False)) =
      [(''game'', ''VGC''), (''limit'', ''10''), (''key'', ''secret'')]"
    using t [of False] by (simp add: r rt_open_def)
  have two: "(''limit'', ''10'') \<in> set (searchParams (req_url (build_request rt_open ''tournaments'' ?ps True)))"
    using t [of True] by (simp add: r)
  have three: "''format'' \<notin> fst ` set (searchParams (req_url (build_request rt_open ''tournaments'' ?ps True)))
      \<and> ''format'' \<notin> fst ` set (searchParams (req_url (build_request rt_open ''tournaments'' ?ps False)))"
    using t [of True] d by (simp add: r)
  show ?thesis using one two three by simp
qed


text \<open>
  C5, as stated, does not hold of the header-only client of server.ts, which has no
  stripping step: it requests every endpoint path as it is given, so a path with a leading
  \<^verbatim>\<open>/\<close> keeps it after the separator that follows the base URL.
\<close>

theorem server_client_keeps_leading_separator:
  "href (req_url (build_request_server rt_open ''/tournaments'' [])) =
     ''https://play.limitlesstcg.com/api//tournaments''
   \<and> href (req_url (build_request_server rt_open ''/tournaments'' [])) \<noteq>
     ''https://play.limitlesstcg.com/api/tournaments''"
  by (simp add: build_request_server_eq API_BASE_URL_def)

text \<open>
  C5, amended. The client with fallback requests the endpoint path with one leading
  \<^verbatim>\<open>/\<close> removed when it has one (a second one stays) and the path itself otherwise.
  The header-only client of server.ts uses every endpoint path unchanged; its callers pass
  \<^verbatim>\<open>tournaments\<close> and \<^verbatim>\<open>tournaments/<id>/...\<close> only.
\<close>

theorem leading_separator_stripped_once:
  "cleanEndpoint (CHR ''/'' # rest) = rest
   \<and> (\<not> startsWith endpoint ''/'' \<longrightarrow> cleanEndpoint endpoint = endpoint)
   \<and> (startsWith endpoint ''/'' \<longrightarrow> endpoint = CHR ''/'' # cleanEndpoint endpoint)
   \<and> href (req_url (build_request rt endpoint ps useHeaderAuth)) =
       API_BASE_URL @ ''/'' @ cleanEndpoint endpoint
   \<and> href (req_url (build_request_server rt endpoint ps)) = API_BASE_URL @ ''/'' @ endpoint"
proof (intro conjI impI)
  show "cleanEndpoint (CHR ''/'' # rest) = rest"
    by (simp add: cleanEndpoint_def startsWith_def substring_def)
  show "cleanEndpoint endpoint = endpoint" if "\<not> startsWith endpoint ''/''"
    using that by (simp add: cleanEndpoint_def)
  show "endpoint = CHR ''/'' # cleanEndpoint endpoint" if "startsWith endpoint ''/''"
    using that by (cases endpoint) (simp_all add: cleanEndpoint_def startsWith_def substring_def)
  show "href (req_url (build_request rt endpoint ps useHeaderAuth)) =
       API_BASE_URL @ ''/'' @ cleanEndpoint endpoint"
    by (cases useHeaderAuth) (simp_all add: build_request_query build_request_header)
  show "href (req_url (build_request_server rt endpoint ps)) = API_BASE_URL @ ''/'' @ endpoint"
    by (simp add: build_request_server_eq)
qed

theorem leading_separator_stripped_once_witness:
  "cleanEndpoint ''//tournaments'' = ''/tournaments''
   \<and> cleanEndpoint ''tournaments/123/standings'' = ''tournaments/123/standings''
   \<and> ''/tournaments'' = CHR ''/'' # cleanEndpoint ''/tournaments''
   \<and> href (req_url (build_request rt_open ''/tournaments'' [] False)) =
       ''https://play.limitlesstcg.com/api/tournaments''"
proof -
  have a: "\<not> startsWith ''tournaments/123/standings'' ''/''"
    by (simp add: startsWith_def)
  have b: "startsWith ''/tournaments'' ''/''"
    by (simp add: startsWith_def)
  have one: "cleanEndpoint ''//tournaments'' = ''/tournaments''"
    using leading_separator_stripped_once [of "''/tournaments''" "[]" rt_open "[]" False] by blast
  have two: "cleanEndpoint ''tournaments/123/standings'' = ''tournaments/123/standings''"
    using leading_separator_stripped_once [of _ "''tournaments/123/standings''"] a by blast
  have three: "''/tournaments'' = CHR ''/'' # cleanEndpoint ''/tournaments''"
    using leading_separator_stripped_once [of _ "''/tournaments''"] b by blast
  have four: "href (req_url (build_request rt_open ''/tournaments'' [] False)) =
       API_BASE_URL @ ''/'' @ cleanEndpoint ''/tournaments''"
    using leading_separator_stripped_once [of _ "''/tournaments''" rt_open "[]" False] by blast
  have five: "cleanEndpoint ''/tournaments'' = ''tournaments''"
    using leading_separator_stripped_once [of "''tournaments''" "[]" rt_open "[]" False] by blast
  show ?thesis
    using one two three four by (simp add: five API_BASE_URL_def)
qed


text \<open>
  C6. An attempt whose response is not \<^verbatim>\<open>ok\<close> throws an \<^verbatim>\<open>Error\<close> whose message is
  \<^verbatim>\<open>API request failed:\<close> followed by the status code and the status text of that
  response; an attempt whose response is \<^verbatim>\<open>ok\<close> yields what \<^verbatim>\<open>response.json()\<close>
  yields. In header mode, and in the header-only client of server.ts, that error is the
  failure of the call; in either mode a successful response with a JSON body is the result
  of the call.
\<close>

theorem upstream_http_error:
  "(fetch rt req (world s) = (Inr r, w') \<and> \<not> ok r
    \<longrightarrow> try_fetch rt req s =
          (Inl (JsError ''Error''
                  (''API request failed: '' @ int_to_string (status r) @ '' '' @ statusText r)),
           fetched req w' s))
   \<and> (fetch rt req (world s) = (Inr r, w') \<and> ok r
    \<longrightarrow> try_fetch rt req s = (json r, fetched req w' s))
   \<and> (fetch rt (build_request rt ep ps True) (world s) = (Inr r, w') \<and> \<not> ok r
    \<longrightarrow> limitlessRequest rt ep ps True s =
          (Inl (JsError ''Error''
                  (''API request failed: '' @ int_to_string (status r) @ '' '' @ statusText r)),
           fetched (build_request rt ep ps True) w' s))
   \<and> (fetch rt (build_request_server rt ep ps) (world s) = (Inr r, w') \<and> \<not> ok r
    \<longrightarrow> limitlessRequest_server rt ep ps s =
          (Inl (JsError ''Error''
                  (''API request failed: '' @ int_to_string (status r) @ '' '' @ statusText r)),
           fetched (build_request_server rt ep ps) w' s))
   \<and> (fetch rt (build_request rt ep ps useHeaderAuth) (world s) = (Inr r, w') \<and> ok r
        \<and> json r = Inr d
    \<longrightarrow> limitlessRequest rt ep ps useHeaderAuth s =
          (Inr d, fetched (build_request rt ep ps useHeaderAuth) w' s))
   \<and> (fetch rt (build_request_server rt ep ps) (world s) = (Inr r, w') \<and> ok r
        \<and> json r = Inr d
    \<longrightarrow> limitlessRequest_server rt ep ps s =
          (Inr d, fetched (build_request_server rt ep ps) w' s))"
proof (intro conjI impI)
  assume "fetch rt req (world s) = (Inr r, w') \<and> \<not> ok r"
  then show "try_fetch rt req s =
      (Inl (JsError ''Error''
              (''API request failed: '' @ int_to_string (status r) @ '' '' @ statusText r)),
       fetched req w' s)"
    by (simp add: try_fetch_result api_request_failed_def)
next
  assume "fetch rt req (world s) = (Inr r, w') \<and> ok r"
  then show "try_fetch rt req s = (json r, fetched req w' s)"
    by (simp add: try_fetch_result)
next
  assume "fetch rt (build_request rt ep ps True) (world s) = (Inr r, w') \<and> \<not> ok r"
  then show "limitlessRequest rt ep ps True s =
      (Inl (JsError ''Error''
              (''API request failed: '' @ int_to_string (status r) @ '' '' @ statusText r)),
       fetched (build_request rt ep ps True) w' s)"
    by (simp add: limitlessRequest_header try_fetch_result api_request_failed_def)
next
  assume "fetch rt (build_request_server rt ep ps) (world s) = (Inr r, w') \<and> \<not> ok r"
  then show "limitlessRequest_server rt ep ps s =
      (Inl (JsError ''Error''
              (''API request failed: '' @ int_to_string (status r) @ '' '' @ statusText r)),
       fetched (build_request_server rt ep ps) w' s)"
    by (simp add: limitlessRequest_server_eq try_fetch_result api_request_failed_def)
next
  assume a: "fetch rt (build_request rt ep ps useHeaderAuth) (world s) = (Inr r, w') \<and> ok r
      \<and> json r = Inr d"
  then have "try_fetch rt (build_request rt ep ps useHeaderAuth) s =
      (Inr d, fetched (build_request rt ep ps useHeaderAuth) w' s)"
    by (simp add: try_fetch_result)
  then show "limitlessRequest rt ep ps useHeaderAuth s =
      (Inr d, fetched (build_request rt ep ps useHeaderAuth) w' s)"
    by (cases useHeaderAuth) (simp_all add: limitlessRequest_header limitlessRequest_query)
next
  assume "fetch rt (build_request_server rt ep ps) (world s) = (Inr r, w') \<and> ok r
      \<and> json r = Inr d"
  then show "limitlessRequest_server rt ep ps s =
      (Inr d, fetched (build_request_server rt ep ps) w' s)"
    by (simp add: limitlessRequest_server_eq try_fetch_result)
qed

theorem upstream_http_error_witness:
  "try_fetch rt_header_only (build_request rt_header_only ''tournaments'' [] False) s0 =
     (Inl (JsError ''Error'' ''API request failed: 403 Forbidden''),
      \<lparr>world = 1, sent = [build_request rt_header_only ''tournaments'' [] False]\<rparr>)
   \<and> try_fetch rt_open (build_request rt_open ''tournaments'' [] False) s0 =
     (Inr (JArr []), \<lparr>world = 1, sent = [build_request rt_open ''tournaments'' [] False]\<rparr>)
   \<and> limitlessRequest rt_header_only ''tournaments'' [] True
       (s0\<lparr>sent := [build_request rt_header_only ''tournaments'' [] False]\<rparr>) =
     (Inr (JArr []),
      \<lparr>world = 1, sent = [build_request rt_header_only ''tournaments'' [] False,
                          build_request rt_header_only ''tournaments'' [] True]\<rparr>)
   \<and> limitlessRequest_server rt_open ''tournaments'' [] s0 =
     (Inr (JArr []), \<lparr>world = 1, sent = [build_request_server rt_open ''tournaments'' []]\<rparr>)
   \<and> limitlessRequest (rt_header_only\<lparr>validApiKey := ''stale''\<rparr>) ''tournaments'' [] True s0 =
     (Inl (JsError ''Error'' ''API request failed: 403 Forbidden''),
      \<lparr>world = 1,
       sent = [build_request (rt_header_only\<lparr>validApiKey := ''stale''\<rparr>) ''tournaments'' [] True]\<rparr>)
   \<and> limitlessRequest_server (rt_header_only\<lparr>validApiKey := ''stale''\<rparr>) ''tournaments'' [] s0 =
     (Inl (JsError ''Error'' ''API request failed: 403 Forbidden''),
      \<lparr>world = 1,
       sent = [build_request_server (rt_header_only\<lparr>validApiKey := ''stale''\<rparr>) ''tournaments'' []]\<rparr>)"
proof -
  let ?bad = "\<lparr>ok = False, status = 403, statusText = ''Forbidden'',
               json = Inr (JObj [(''message'', JStr ''Forbidden'')])\<rparr>"
  let ?good = "\<lparr>ok = True, status = 200, statusText = ''OK'', json = Inr (JArr [])\<rparr>"
  let ?stale = "rt_header_only\<lparr>validApiKey := ''stale''\<rparr>"
  let ?s1 = "s0\<lparr>sent := [build_request rt_header_only ''tournaments'' [] False]\<rparr>"
  have code: "int_to_string 403 = ''403''"
    by (simp add: int_to_string_def nat_to_string.simps digit_char_def)
  note fx = rt_header_only_def rt_open_def header_only_upstream_def open_upstream_def s0_def
  have h1: "fetch rt_header_only (build_request rt_header_only ''tournaments'' [] False) (world s0)
      = (Inr ?bad, 1) \<and> \<not> ok ?bad"
    by (simp add: fx build_request_query)
  have h2: "fetch rt_open (build_request rt_open ''tournaments'' [] False) (world s0)
      = (Inr ?good, 1) \<and> ok ?good"
    by (simp add: fx)
  have h3: "fetch rt_header_only (build_request rt_header_only ''tournaments'' [] True) (world ?s1)
      = (Inr ?good, 1) \<and> ok ?good \<and> json ?good = Inr (JArr [])"
    by (simp add: fx build_request_header)
  have h4: "fetch rt_open (build_request_server rt_open ''tournaments'' []) (world s0)
      = (Inr ?good, 1) \<and> ok ?good \<and> json ?good = Inr (JArr [])"
    by (simp add: fx)
  have h5: "fetch ?stale (build_request ?stale ''tournaments'' [] True) (world s0)
      = (Inr ?bad, 1) \<and> \<not> ok ?bad"
    by (simp add: fx build_request_header)
  have h6: "fetch ?stale (build_request_server ?stale ''tournaments'' []) (world s0)
      = (Inr ?bad, 1) \<and> \<not> ok ?bad"
    by (simp add: fx build_request_server_eq)
  have c1: "try_fetch rt_header_only (build_request rt_header_only ''tournaments'' [] False) s0 =
      (Inl (JsError ''Error'' (''API request failed: '' @ int_to_string (status ?bad) @ '' ''
                                @ statusText ?bad)),
       fetched (build_request rt_header_only ''tournaments'' [] False) 1 s0)"
    using upstream_http_error
      [of rt_header_only "build_request rt_header_only ''tournaments'' [] False" s0 ?bad 1]
      h1 by blast
  have c2: "try_fetch rt_open (build_request rt_open ''tournaments'' [] False) s0 =
      (json ?good, fetched (build_request rt_open ''tournaments'' [] False) 1 s0)"
    using upstream_http_error
      [of rt_open "build_request rt_open ''tournaments'' [] False" s0 ?good 1]
      h2 by blast
  have c3: "limitlessRequest rt_header_only ''tournaments'' [] True ?s1 =
      (Inr (JArr []), fetched (build_request rt_header_only ''tournaments'' [] True) 1 ?s1)"
    using upstream_http_error
      [of rt_header_only _ ?s1 ?good 1 "''tournaments''" "[]" True "JArr []"]
      h3 by blast
  have c4: "limitlessRequest_server rt_open ''tournaments'' [] s0 =
      (Inr (JArr []), fetched (build_request_server rt_open ''tournaments'' []) 1 s0)"
    using upstream_http_error
      [of rt_open _ s0 ?good 1 "''tournaments''" "[]" _ "JArr []"]
      h4 by blast
  have c5: "limitlessRequest ?stale ''tournaments'' [] True s0 =
      (Inl (JsError ''Error'' (''API request failed: '' @ int_to_string (status ?bad) @ '' ''
                                @ statusText ?bad)),
       fetched (build_request ?stale ''tournaments'' [] True) 1 s0)"
    using upstream_http_error [of ?stale _ s0 ?bad 1 "''tournaments''" "[]"] h5 by blast
  have c6: "limitlessRequest_server ?stale ''tournaments'' [] s0 =
      (Inl (JsError ''Error'' (''API request failed: '' @ int_to_string (status ?bad) @ '' ''
                                @ statusText ?bad)),
       fetched (build_request_server ?stale ''tournaments'' []) 1 s0)"
    using upstream_http_error [of ?stale _ s0 ?bad 1 "''tournaments''" "[]"] h6 by blast
  show ?thesis
    using c1 c2 c3 c4 c5 c6 by (simp add: code fetched_def s0_def)
qed


text \<open>
  C7, as stated, does not hold of the handlers registered as resources. The tournament list
  resource of part 001 awaits the client outside any \<^verbatim>\<open>try\<close>: with an unreachable
  upstream the rejection leaves the handler, and no envelope is returned.
\<close>

theorem resource_handler_propagates_failure:
  "fst (tournaments_resource rt_unreachable ''limitless://tournaments'' s0) =
     Inl (JsError ''TypeError'' ''fetch failed'')
   \<and> (\<nexists>res. fst (tournaments_resource rt_unreachable ''limitless://tournaments'' s0) = Inr res)"
  by (simp add: tournaments_resource_uncaught unreachable_fails)

text \<open>
  C7, amended. Each of the four handlers registered as tools, in part 000 and in server.ts,
  always returns an envelope. When the client fails, the envelope has the error flag set
  and its text is the handler's message followed by the string form of the failure.
\<close>

theorem tool_failures_become_error_envelopes:
  "(\<exists>env. fst (get_tournaments rt a s) = Inr env)
   \<and> (\<exists>env. fst (get_tournament_details rt tid s) = Inr env)
   \<and> (\<exists>env. fst (get_tournament_standings rt tid s) = Inr env)
   \<and> (\<exists>env. fst (get_tournament_pairings rt tid s) = Inr env)
   \<and> (\<exists>env. fst (get_tournaments_server rt a s) = Inr env)
   \<and> (\<exists>env. fst (get_tournament_details_server rt tid s) = Inr env)
   \<and> (\<exists>env. fst (get_tournament_standings_server rt tid s) = Inr env)
   \<and> (\<exists>env. fst (get_tournament_pairings_server rt tid s) = Inr env)
   \<and> (fst (limitlessRequest rt ''tournaments'' (get_tournaments_queryParams a) False s) = Inl e
      \<longrightarrow> fst (get_tournaments rt a s) =
            Inr \<lparr>isError = True,
                 content = [\<lparr>block_type = ''text'',
                             block_text = ''Error fetching tournaments: '' @ error_toString e\<rparr>]\<rparr>)
   \<and> (fst (limitlessRequest rt (''tournaments/'' @ tid @ ''/details'') [] False s) = Inl e
      \<longrightarrow> fst (get_tournament_details rt tid s) =
            Inr \<lparr>isError = True,
                 content = [\<lparr>block_type = ''text'',
                             block_text = ''Error fetching tournament details: '' @ error_toString e\<rparr>]\<rparr>)
   \<and> (fst (limitlessRequest rt (''tournaments/'' @ tid @ ''/standings'') [] False s) = Inl e
      \<longrightarrow> fst (get_tournament_standings rt tid s) =
            Inr \<lparr>isError = True,
                 content = [\<lparr>block_type = ''text'',
                             block_text = ''Error fetching tournament standings: '' @ error_toString e\<rparr>]\<rparr>)
   \<and> (fst (limitlessRequest rt (''tournaments/'' @ tid @ ''/pairings'') [] False s) = Inl e
      \<longrightarrow> fst (get_tournament_pairings rt tid s) =
            Inr \<lparr>isError = True,
                 content = [\<lparr>block_type = ''text'',
                             block_text = ''Error fetching tournament pairings: '' @ error_toString e\<rparr>]\<rparr>)
   \<and> (fst (limitlessRequest_server rt ''tournaments'' (get_tournaments_queryParams a) s) = Inl e
      \<longrightarrow> fst (get_tournaments_server rt a s) =
            Inr \<lparr>isError = True,
                 content = [\<lparr>block_type = ''text'',
                             block_text = ''Error fetching tournaments: '' @ error_toString e\<rparr>]\<rparr>)
   \<and> (fst (limitlessRequest_server rt (''tournaments/'' @ tid @ ''/details'') [] s) = Inl e
      \<longrightarrow> fst (get_tournament_details_server rt tid s) =
            Inr \<lparr>isError = True,
                 content = [\<lparr>block_type = ''text'',
                             block_text = ''Error fetching tournament details: '' @ error_toString e\<rparr>]\<rparr>)
   \<and> (fst (limitlessRequest_server rt (''tournaments/'' @ tid @ ''/standings'') [] s) = Inl e
      \<longrightarrow> fst (get_tournament_standings_server rt tid s) =
            Inr \<lparr>isError = True,
                 content = [\<lparr>block_type = ''text'',
                             block_text = ''Error fetching tournament standings: '' @ error_toString e\<rparr>]\<rparr>)
   \<and> (fst (limitlessRequest_server rt (''tournaments/'' @ tid @ ''/pairings'') [] s) = Inl e
      \<longrightarrow> fst (get_tournament_pairings_server rt tid s) =
            Inr \<lparr>isError = True,
                 content = [\<lparr>block_type = ''text'',
                             block_text = ''Error fetching tournament pairings: '' @ error_toString e\<rparr>]\<rparr>)"
proof (intro conjI impI)
  show "\<exists>env. fst (get_tournaments rt a s) = Inr env"
    by (simp add: get_tournaments_caught split: sum.splits)
  show "\<exists>env. fst (get_tournament_details rt tid s) = Inr env"
    by (simp add: get_tournament_details_caught split: sum.splits)
  show "\<exists>env. fst (get_tournament_standings rt tid s) = Inr env"
    by (simp add: get_tournament_standings_caught split: sum.splits)
  show "\<exists>env. fst (get_tournament_pairings rt tid s) = Inr env"
    by (simp add: get_tournament_pairings_caught split: sum.splits)
  show "\<exists>env. fst (get_tournaments_server rt a s) = Inr env"
    by (simp add: get_tournaments_server_caught split: sum.splits)
  show "\<exists>env. fst (get_tournament_details_server rt tid s) = Inr env"
    by (simp add: get_tournament_details_server_caught split: sum.splits)
  show "\<exists>env. fst (get_tournament_standings_server rt tid s) = Inr env"
    by (simp add: get_tournament_standings_server_caught split: sum.splits)
  show "\<exists>env. fst (get_tournament_pairings_server rt tid s) = Inr env"
    by (simp add: get_tournament_pairings_server_caught split: sum.splits)
qed (simp_all add: get_tournaments_caught get_tournament_details_caught
      get_tournament_standings_caught get_tournament_pairings_caught
      get_tournaments_server_caught get_tournament_details_server_caught
      get_tournament_standings_server_caught get_tournament_pairings_server_caught
      error_result_def)

theorem tool_failures_become_error_envelopes_witness:
  "fst (get_tournaments rt_unreachable
          \<lparr>game = JStr ''VGC'', format = JUndefined, organizerId = JUndefined,
           limit = JNum 10, page = JUndefined\<rparr> s0) =
     Inr \<lparr>isError = True,
          content = [\<lparr>block_type = ''text'',
                      block_text = ''Error fetching tournaments: TypeError: fetch failed''\<rparr>]\<rparr>
   \<and> fst (get_tournament_details rt_unreachable ''123'' s0) =
     Inr \<lparr>isError = True,
          content = [\<lparr>block_type = ''text'',
                      block_text = ''Error fetching tournament details: TypeError: fetch failed''\<rparr>]\<rparr>
   \<and> fst (get_tournament_standings rt_unreachable ''123'' s0) =
     Inr \<lparr>isError = True,
          content = [\<lparr>block_type = ''text'',
                      block_text = ''Error fetching tournament standings: TypeError: fetch failed''\<rparr>]\<rparr>
   \<and> fst (get_tournament_pairings rt_unreachable ''123'' s0) =
     Inr \<lparr>isError = True,
          content = [\<lparr>block_type = ''text'',
                      block_text = ''Error fetching tournament pairings: TypeError: fetch failed''\<rparr>]\<rparr>
   \<and> fst (get_tournaments_server rt_unreachable
          \<lparr>game = JStr ''VGC'', format = JUndefined, organizerId = JUndefined,
           limit = JNum 10, page = JUndefined\<rparr> s0) =
     Inr \<lparr>isError = True,
          content = [\<lparr>block_type = ''text'',
                      block_text = ''Error fetching tournaments: TypeError: fetch failed''\<rparr>]\<rparr>
   \<and> fst (get_tournament_details_server rt_unreachable ''123'' s0) =
     Inr \<lparr>isError = True,
          content = [\<lparr>block_type = ''text'',
                      block_text = ''Error fetching tournament details: TypeError: fetch failed''\<rparr>]\<rparr>
   \<and> fst (get_tournament_standings_server rt_unreachable ''123'' s0) =
     Inr \<lparr>isError = True,
          content = [\<lparr>block_type = ''text'',
                      block_text = ''Error fetching tournament standings: TypeError: fetch failed''\<rparr>]\<rparr>
   \<and> fst (get_tournament_pairings_server rt_unreachable ''123'' s0) =
     Inr \<lparr>isError = True,
          content = [\<lparr>block_type = ''text'',
                      block_text = ''Error fetching tournament pairings: TypeError: fetch failed''\<rparr>]\<rparr>"
proof -
  let ?a = "\<lparr>game = JStr ''VGC'', format = JUndefined, organizerId = JUndefined,
             limit = JNum 10, page = JUndefined\<rparr>"
  let ?e = "JsError ''TypeError'' ''fetch failed''"
  have msg: "error_toString ?e = ''TypeError: fetch failed''"
    by (simp add: error_toString_def)
  note t = tool_failures_become_error_envelopes [of rt_unreachable ?a s0 "''123''" ?e]
  show ?thesis
    using t unreachable_fails [of _ _ False s0] unreachable_server_fails [of _ _ s0]
    by (simp add: msg)
qed


text \<open>
  C8, as stated, does not hold in part 000 when the first attempt fails: with an upstream
  that refuses the credential as a query parameter, the invocation with
  \<^verbatim>\<open>{game: "VGC", limit: 10}\<close> is observed as two requests, the second being the
  header-mode retry.
\<close>

theorem list_tournaments_two_requests_under_fallback:
  "length (sent (snd (get_tournaments rt_header_only
       \<lparr>game = JStr ''VGC'', format = JUndefined, organizerId = JUndefined,
        limit = JNum 10, page = JUndefined\<rparr> s0))) = 2"
  by (simp add: get_tournaments_state limitlessRequest_sent s0_def try_fetch_def Let_def
        build_request_query rt_header_only_def header_only_upstream_def)

text \<open>
  C8, amended. With the arguments \<^verbatim>\<open>{game: "VGC", limit: 10}\<close> the handler makes one
  call to the client, for the endpoint \<^verbatim>\<open>tournaments\<close> with the parameters \<open>game\<close>
  and \<open>limit\<close> and no others. In server.ts that call is exactly one request. In part 000
  it is one request when the first attempt succeeds and two when it fails. Every request
  has \<^verbatim>\<open>game=VGC\<close> and \<^verbatim>\<open>limit=10\<close> and no \<^verbatim>\<open>format\<close>,
  \<^verbatim>\<open>organizerId\<close> or \<^verbatim>\<open>page\<close>.
\<close>

theorem list_tournaments_vgc_request:
  "get_tournaments_queryParams
       \<lparr>game = JStr ''VGC'', format = JUndefined, organizerId = JUndefined,
        limit = JNum 10, page = JUndefined\<rparr> = [(''game'', JStr ''VGC''), (''limit'', JNum 10)]
   \<and> sent (snd (get_tournaments_server rt
       \<lparr>game = JStr ''VGC'', format = JUndefined, organizerId = JUndefined,
        limit = JNum 10, page = JUndefined\<rparr> s)) =
       sent s @ [\<lparr>req_url = \<lparr>href = ''https://play.limitlesstcg.com/api/tournaments'',
                              searchParams = [(''game'', ''VGC''), (''limit'', ''10'')]\<rparr>,
                   req_headers = [(''X-Access-Key'', validApiKey rt)]\<rparr>]
   \<and> sent (snd (get_tournaments rt
       \<lparr>game = JStr ''VGC'', format = JUndefined, organizerId = JUndefined,
        limit = JNum 10, page = JUndefined\<rparr> s)) =
       sent s @
       (if isl (fst (try_fetch rt
            \<lparr>req_url = \<lparr>href = ''https://play.limitlesstcg.com/api/tournaments'',
                        searchParams = [(''game'', ''VGC''), (''limit'', ''10''),
                                        (''key'', validApiKey rt)]\<rparr>,
             req_headers = []\<rparr> s))
        then [\<lparr>req_url = \<lparr>href = ''https://play.limitlesstcg.com/api/tournaments'',
                          searchParams = [(''game'', ''VGC''), (''limit'', ''10''),
                                          (''key'', validApiKey rt)]\<rparr>,
               req_headers = []\<rparr>,
              \<lparr>req_url = \<lparr>href = ''https://play.limitlesstcg.com/api/tournaments'',
                          searchParams = [(''game'', ''VGC''), (''limit'', ''10'')]\<rparr>,
               req_headers = [(''X-Access-Key'', validApiKey rt)]\<rparr>]
        else [\<lparr>req_url = \<lparr>href = ''https://play.limitlesstcg.com/api/tournaments'',
                          searchParams = [(''game'', ''VGC''), (''limit'', ''10''),
                                          (''key'', validApiKey rt)]\<rparr>,
               req_headers = []\<rparr>])"
proof -
  let ?a = "\<lparr>game = JStr ''VGC'', format = JUndefined, organizerId = JUndefined,
             limit = JNum 10, page = JUndefined\<rparr>"
  have ten: "js_String (JNum 10) = ''10''"
    by (simp add: int_to_string_def nat_to_string.simps digit_char_def)
  have qp: "get_tournaments_queryParams ?a = [(''game'', JStr ''VGC''), (''limit'', JNum 10)]"
    by (simp add: get_tournaments_queryParams_def)
  have r: "retained_parameters [(''game'', JStr ''VGC''), (''limit'', JNum 10)] =
      [(''game'', ''VGC''), (''limit'', ''10'')]"
    using ten by (simp add: retained_parameters_def)
  have ep: "API_BASE_URL @ ''/'' @ cleanEndpoint ''tournaments'' =
      ''https://play.limitlesstcg.com/api/tournaments''"
    by (simp add: API_BASE_URL_def cleanEndpoint_def startsWith_def)
  have ep': "API_BASE_URL @ ''/'' @ ''tournaments'' =
      ''https://play.limitlesstcg.com/api/tournaments''"
    by (simp add: API_BASE_URL_def)
  have q: "build_request rt ''tournaments'' [(''game'', JStr ''VGC''), (''limit'', JNum 10)] False =
      \<lparr>req_url = \<lparr>href = ''https://play.limitlesstcg.com/api/tournaments'',
                  searchParams = [(''game'', ''VGC''), (''limit'', ''10''),
                                  (''key'', validApiKey rt)]\<rparr>,
       req_headers = []\<rparr>"
    unfolding build_request_query r ep by simp
  have h: "build_request rt ''tournaments'' [(''game'', JStr ''VGC''), (''limit'', JNum 10)] True =
      \<lparr>req_url = \<lparr>href = ''https://play.limitlesstcg.com/api/tournaments'',
                  searchParams = [(''game'', ''VGC''), (''limit'', ''10'')]\<rparr>,
       req_headers = [(''X-Access-Key'', validApiKey rt)]\<rparr>"
    unfolding build_request_header r ep by simp
  have sv: "build_request_server rt ''tournaments'' [(''game'', JStr ''VGC''), (''limit'', JNum 10)] =
      \<lparr>req_url = \<lparr>href = ''https://play.limitlesstcg.com/api/tournaments'',
                  searchParams = [(''game'', ''VGC''), (''limit'', ''10'')]\<rparr>,
       req_headers = [(''X-Access-Key'', validApiKey rt)]\<rparr>"
    unfolding build_request_server_eq r ep' by simp
  have one: "sent (snd (get_tournaments_server rt ?a s)) =
      sent s @ [build_request_server rt ''tournaments'' [(''game'', JStr ''VGC''), (''limit'', JNum 10)]]"
    by (simp only: get_tournaments_server_state qp limitlessRequest_server_eq try_fetch_sent)
  have two: "sent (snd (get_tournaments rt ?a s)) =
      sent s @
       (if False then [build_request rt ''tournaments'' [(''game'', JStr ''VGC''), (''limit'', JNum 10)] True]
        else if isl (fst (try_fetch rt
                 (build_request rt ''tournaments'' [(''game'', JStr ''VGC''), (''limit'', JNum 10)] False) s))
             then [build_request rt ''tournaments'' [(''game'', JStr ''VGC''), (''limit'', JNum 10)] False,
                   build_request rt ''tournaments'' [(''game'', JStr ''VGC''), (''limit'', JNum 10)] True]
             else [build_request rt ''tournaments'' [(''game'', JStr ''VGC''), (''limit'', JNum 10)] False])"
    by (simp only: get_tournaments_state qp limitlessRequest_sent)
  show ?thesis
    using qp one two unfolding q h sv by simp
qed

theorem list_tournaments_vgc_request_witness:
  "sent (snd (get_tournaments_server rt_open
       \<lparr>game = JStr ''VGC'', format = JUndefined, organizerId = JUndefined,
        limit = JNum 10, page = JUndefined\<rparr> s0)) =
     [\<lparr>req_url = \<lparr>href = ''https://play.limitlesstcg.com/api/tournaments'',
                  searchParams = [(''game'', ''VGC''), (''limit'', ''10'')]\<rparr>,
       req_headers = [(''X-Access-Key'', ''secret'')]\<rparr>]
   \<and> sent (snd (get_tournaments rt_open
       \<lparr>game = JStr ''VGC'', format = JUndefined, organizerId = JUndefined,
        limit = JNum 10, page = JUndefined\<rparr> s0)) =
     [\<lparr>req_url = \<lparr>href = ''https://play.limitlesstcg.com/api/tournaments'',
                  searchParams = [(''game'', ''VGC''), (''limit'', ''10''), (''key'', ''secret'')]\<rparr>,
       req_headers = []\<rparr>]"
  using list_tournaments_vgc_request [of rt_open s0]
  by (simp add: try_fetch_def Let_def rt_open_def open_upstream_def s0_def)







end
